theory Spec2Isabelle
  imports Main "HOL-Library.Sublist"
begin

section \<open>The social-events server (index.js)\<close>

text \<open>
  The server is one file of request handlers over three collections of a document
  store: events, users and joinedEvents. Each handler is embedded as a function from the
  request's inputs and the store to a response and the store afterwards.

  What the handlers call but the file does not define is taken as a parameter, so that
  every theorem holds for whatever these functions are:
  \<^item> \<open>decode\<close>: the token payload read as base64 and parsed as JSON
    (\<open>JSON.parse(Buffer.from(payload, "base64").toString())\<close>), \<open>None\<close> when it throws;
  \<^item> \<open>mkOid\<close>: \<open>new ObjectId(string)\<close>, \<open>None\<close> when it throws;
  \<^item> \<open>mkDate\<close>: \<open>new Date(value)\<close> as the store keeps it (milliseconds);
  \<^item> \<open>parseInt\<close>, of a parameter of the query string: \<open>None\<close> for NaN;
  \<^item> \<open>rx\<close>: the store's \<open>$regex\<close> operator with option \<open>i\<close>: the matcher of a pattern,
    \<open>None\<close> when the store rejects the pattern;
  \<^item> \<open>ops\<close>: the store's reading of a filter value that is an object of query operators:
    the values it matches, \<open>None\<close> when the store rejects the query;
  \<^item> the clock (\<open>new Date()\<close>), read once per request as \<open>now\<close>, and the identifier the
    driver generates for an inserted event, \<open>oid\<close>.

  The store is modelled as the handlers use it: a filter on a field is \<open>field_is\<close>
  below, \<open>findOne\<close> and the single-document updates take the first match in insertion order,
  \<open>_id\<close> is unique in events (an insert with a used identifier throws), a sort is by the
  key and keeps the insertion order of equal keys. A document is stored as it is given,
  also when a value in it is an object with keys that start with a dollar sign. A store
  operation fails only where that is written out (the duplicate identifier, the rejected
  pattern, the rejected query). The \<open>_id\<close> of users and of join records is read nowhere
  and is left out.
\<close>

subsection \<open>JSON values\<close>

text \<open>
  Request bodies and token payloads are JSON. Numbers are integers here; no handler
  computes with them, they are only tested for truth and stored. The pairs of an object
  are its properties in the order in which they are enumerated.
\<close>

datatype json =
    JNull
  | JBool bool
  | JNum int
  | JStr string
  | JArr "json list"
  | JObj "(string \<times> json) list"

text \<open>JavaScript's truthiness of a value.\<close>

fun truthy :: "json \<Rightarrow> bool" where
  "truthy JNull = False"
| "truthy (JBool b) = b"
| "truthy (JNum n) = (n \<noteq> 0)"
| "truthy (JStr s) = (s \<noteq> [])"
| "truthy (JArr xs) = True"
| "truthy (JObj kvs) = True"

text \<open>
  A request body is an object of which a handler reads named properties; a property of
  a body or of a payload is absent (\<open>undefined\<close>) or a value.
\<close>

definition falsy :: "json option \<Rightarrow> bool" where
  "falsy v = (case v of None \<Rightarrow> True | Some x \<Rightarrow> \<not> truthy x)"

text \<open>\<open>a || b\<close> where \<open>a\<close> may be undefined.\<close>

definition or_else :: "json option \<Rightarrow> json \<Rightarrow> json" where
  "or_else a b = (case a of None \<Rightarrow> b | Some x \<Rightarrow> if truthy x then x else b)"

text \<open>Property access on a parsed value; of a repeated key \<open>JSON.parse\<close> keeps the last.\<close>

fun jfield :: "string \<Rightarrow> json \<Rightarrow> json option" where
  "jfield k (JObj kvs) = map_of (rev kvs) k"
| "jfield k v = None"

text \<open>
  \<open>a === b\<close> on parsed values: primitives are compared by value, and two objects or
  arrays that were parsed or read from the store separately are never the same object.
\<close>

fun strict_eq :: "json \<Rightarrow> json \<Rightarrow> bool" where
  "strict_eq JNull JNull = True"
| "strict_eq (JBool a) (JBool b) = (a = b)"
| "strict_eq (JNum a) (JNum b) = (a = b)"
| "strict_eq (JStr a) (JStr b) = (a = b)"
| "strict_eq a b = False"

text \<open>
  The store's match of a stored value with a value \<open>q\<close>: the stored value is \<open>q\<close>,
  or it is an array and \<open>q\<close> is one of its elements.
\<close>

definition value_is :: "json \<Rightarrow> json \<Rightarrow> bool" where
  "value_is q v = (v = q \<or> (case v of JArr xs \<Rightarrow> q \<in> set xs | _ \<Rightarrow> False))"

text \<open>
  The store reads an object whose first key starts with a dollar sign as an expression
  of query operators, not as a value.
\<close>

definition is_operator_doc :: "json \<Rightarrow> bool" where
  "is_operator_doc q =
     (case q of
        JObj ((k, x) # kvs) \<Rightarrow> (case k of [] \<Rightarrow> False | c # cs \<Rightarrow> c = CHR ''$'')
      | _ \<Rightarrow> False)"

text \<open>
  The filter \<open>{field: q}\<close>, as the stored values it selects: those that match \<open>q\<close>
  when \<open>q\<close> is a value, and what the operators say when it is an expression. The
  handlers put the email of the token's payload into such filters as it is.
\<close>

definition field_is ::
  "(json \<Rightarrow> (json \<Rightarrow> bool) option) \<Rightarrow> json \<Rightarrow> (json \<Rightarrow> bool) option" where
  "field_is ops q = (if is_operator_doc q then ops q else Some (value_is q))"

subsection \<open>Documents and the store\<close>

record identity =
  email :: json
  displayName :: json
  photoURL :: json

record user =
  u_email :: json
  u_displayName :: json
  u_photoURL :: json
  u_preferences :: json
  u_updatedAt :: int

record event =
  eid :: nat
  title :: json
  description :: json
  eventType :: json
  thumbnailImage :: json
  location :: json
  eventDate :: int
  userEmail :: json
  userName :: json
  userPhotoURL :: json
  createdAt :: int
  updatedAt :: int

record join_record =
  j_eventId :: nat
  j_userEmail :: json
  j_userName :: json
  j_userPhotoURL :: json
  j_joinedAt :: int

record store =
  events :: "event list"
  users :: "user list"
  joins :: "join_record list"

definition empty_store :: store where
  "empty_store = \<lparr>events = [], users = [], joins = []\<rparr>"

text \<open>A projected join record; \<open>joinedAt\<close> is there only in the single-event view.\<close>

record participant =
  p_userEmail :: json
  p_userName :: json
  p_userPhotoURL :: json
  p_joinedAt :: "int option"

text \<open>
  An event as a response carries it: the stored fields, \<open>participants\<close>, and
  \<open>participantsCount\<close> when the handler sets that property (\<open>None\<close>: the property is
  not in the object; no stored event has it, since only the handlers below write events).
\<close>

record event_view =
  v_event :: event
  participants :: "participant list"
  participantsCount :: "nat option"

datatype body =
    Error string
  | Message string
  | UserBody "user option"
  | EventBody event
  | ViewBody event_view
  | ViewsBody "event_view list"
  | ResultValue

type_synonym response = "nat \<times> body"

definition views_of :: "response \<Rightarrow> event_view list" where
  "views_of r = (case snd r of ViewsBody vs \<Rightarrow> vs | _ \<Rightarrow> [])"

text \<open>The first document that matches, updated (\<open>updateOne\<close>, \<open>findOneAndUpdate\<close>).\<close>

fun update_first :: "('a \<Rightarrow> bool) \<Rightarrow> ('a \<Rightarrow> 'a) \<Rightarrow> 'a list \<Rightarrow> 'a list" where
  "update_first P f [] = []"
| "update_first P f (x # xs) = (if P x then f x # xs else x # update_first P f xs)"

subsection \<open>Authentication middleware\<close>

fun split_on :: "char \<Rightarrow> string \<Rightarrow> string list" where
  "split_on d [] = [[]]"
| "split_on d (c # cs) =
     (if c = d then [] # split_on d cs
      else (case split_on d cs of
              [] \<Rightarrow> [[c]]
            | w # ws \<Rightarrow> (c # w) # ws))"

text \<open>Reading an array at an index: \<open>undefined\<close> past the end.\<close>

definition at_index :: "'a list \<Rightarrow> nat \<Rightarrow> 'a option" where
  "at_index xs i = (if i < length xs then Some (xs ! i) else None)"

definition startsWith :: "string \<Rightarrow> string \<Rightarrow> bool" where
  "startsWith s p = prefix p s"

text \<open>\<open>authHeader.split(" ")[1]\<close>, for a header that starts with the scheme.\<close>

definition bearer_token :: "string \<Rightarrow> string option" where
  "bearer_token authHeader = at_index (split_on (CHR '' '') authHeader) 1"

text \<open>The second of the token's dot-separated parts.\<close>

definition token_payload :: "string \<Rightarrow> string option" where
  "token_payload token = at_index (split_on (CHR ''.'') token) 1"

text \<open>
  The identity built from a decoded payload, or the throw that the inner \<open>catch\<close> turns
  into 401: reading \<open>email\<close> of \<open>null\<close> throws, and so does a falsy or absent email.
\<close>

definition identity_of :: "json \<Rightarrow> identity option" where
  "identity_of decodedPayload =
     (if falsy (jfield ''email'' decodedPayload) then None
      else (case jfield ''email'' decodedPayload of
              None \<Rightarrow> None
            | Some e \<Rightarrow>
                Some \<lparr>email = e,
                      displayName = or_else (jfield ''name'' decodedPayload) (JStr ''Anonymous''),
                      photoURL = or_else (jfield ''picture'' decodedPayload) JNull\<rparr>))"

text \<open>\<open>Inl\<close>: the response the middleware sends; \<open>Inr\<close>: \<open>req.user\<close>, and \<open>next()\<close>.\<close>

definition authenticate :: "(string \<Rightarrow> json option) \<Rightarrow> string option \<Rightarrow> response + identity" where
  "authenticate decode authorization =
     (case authorization of
        None \<Rightarrow> Inl (401, Error ''Unauthorized - No token provided'')
      | Some authHeader \<Rightarrow>
          if \<not> startsWith authHeader ''Bearer ''
          then Inl (401, Error ''Unauthorized - No token provided'')
          else (case bearer_token authHeader of
                  None \<Rightarrow> Inl (401, Error ''Invalid token'')
                | Some token \<Rightarrow>
                    if token = [] then Inl (401, Error ''Invalid token'')
                    else (case token_payload token of
                            None \<Rightarrow> Inl (401, Error ''Invalid token format'')
                          | Some payload \<Rightarrow>
                              (case decode payload of
                                 None \<Rightarrow> Inl (401, Error ''Invalid token format'')
                               | Some decodedPayload \<Rightarrow>
                                   (case identity_of decodedPayload of
                                      None \<Rightarrow> Inl (401, Error ''Invalid token format'')
                                    | Some u \<Rightarrow> Inr u)))))"

subsection \<open>POST /users\<close>

record user_body =
  b_displayName :: "json option"
  b_photoURL :: "json option"
  b_preferences :: "json option"

definition default_preferences :: json where
  "default_preferences = JObj [(''notifications'', JBool True), (''emailUpdates'', JBool True)]"

text \<open>\<open>$set\<close> of the five fields of \<open>updateData\<close> on a stored user.\<close>

definition set_user :: "user \<Rightarrow> user \<Rightarrow> user" where
  "set_user updateData doc =
     doc\<lparr>u_email := u_email updateData,
         u_displayName := u_displayName updateData,
         u_photoURL := u_photoURL updateData,
         u_preferences := u_preferences updateData,
         u_updatedAt := u_updatedAt updateData\<rparr>"

text \<open>
  \<open>updateOne(filter, {$set: ...}, {upsert: true})\<close>, for the emails \<open>m\<close> that the filter
  selects: the first match is updated; with no match a document is inserted, made of
  what the filter fixes and then of the fields set, which are all the fields a user has.
\<close>

definition upsert_user :: "(json \<Rightarrow> bool) \<Rightarrow> user \<Rightarrow> user list \<Rightarrow> user list" where
  "upsert_user m updateData us =
     (case find (\<lambda>d. m (u_email d)) us of
        None \<Rightarrow> us @ [updateData]
      | Some d \<Rightarrow> update_first (\<lambda>d. m (u_email d)) (set_user updateData) us)"

text \<open>A query that the store rejects throws, and the handler's \<open>catch\<close> answers 500.\<close>

definition post_users ::
  "(json \<Rightarrow> (json \<Rightarrow> bool) option) \<Rightarrow> int \<Rightarrow> identity \<Rightarrow> user_body \<Rightarrow> store \<Rightarrow>
   response \<times> store" where
  "post_users ops now u b st =
     (let updateData =
            \<lparr>u_email = email u,
             u_displayName = or_else (b_displayName b) (displayName u),
             u_photoURL = or_else (b_photoURL b) (photoURL u),
             u_preferences = or_else (b_preferences b) default_preferences,
             u_updatedAt = now\<rparr>
      in case field_is ops (email u) of
           None \<Rightarrow> ((500, Error ''Server error''), st)
         | Some m \<Rightarrow>
             let st' = st\<lparr>users := upsert_user m updateData (users st)\<rparr>;
                 updatedUser = find (\<lambda>d. m (u_email d)) (users st')
             in ((200, UserBody updatedUser), st'))"

subsection \<open>Participants of an event\<close>

definition project :: "join_record \<Rightarrow> participant" where
  "project j = \<lparr>p_userEmail = j_userEmail j, p_userName = j_userName j,
               p_userPhotoURL = j_userPhotoURL j, p_joinedAt = None\<rparr>"

definition project_joinedAt :: "join_record \<Rightarrow> participant" where
  "project_joinedAt j = \<lparr>p_userEmail = j_userEmail j, p_userName = j_userName j,
                        p_userPhotoURL = j_userPhotoURL j, p_joinedAt = Some (j_joinedAt j)\<rparr>"

text \<open>The body of the \<open>events.map\<close> callback of GET /events and GET /manage/events.\<close>

definition enrich :: "store \<Rightarrow> event \<Rightarrow> event_view" where
  "enrich st event =
     (let ps = map project (filter (\<lambda>j. j_eventId j = eid event) (joins st))
      in \<lparr>v_event = event, participants = ps, participantsCount = Some (length ps)\<rparr>)"

subsection \<open>GET /events\<close>

text \<open>
  The three parameters of the query string that the handler reads, each as the
  framework has parsed it: a string, or an array or an object when the key is repeated
  or written with brackets.
\<close>

record events_query =
  q_type :: "json option"
  q_search :: "json option"
  q_limit :: "json option"

text \<open>
  \<open>cursor.limit(n)\<close>: 0 is no limit, and the driver sends a negative limit as its
  absolute value in a single batch. The cursor sorts before it limits, whatever the order
  of the two calls.
\<close>

definition cursor_limit :: "int \<Rightarrow> 'a list \<Rightarrow> 'a list" where
  "cursor_limit n xs = (if n = 0 then xs else take (nat \<bar>n\<bar>) xs)"

text \<open>\<open>parseInt(limit) || 0\<close>\<close>

definition limit_of :: "(json \<Rightarrow> int option) \<Rightarrow> json option \<Rightarrow> int" where
  "limit_of parseInt l =
     (case l of
        None \<Rightarrow> 0
      | Some v \<Rightarrow> (case parseInt v of None \<Rightarrow> 0 | Some k \<Rightarrow> if k \<noteq> 0 then k else 0))"

text \<open>
  \<open>eventType: type\<close>, set when \<open>type\<close> is truthy: the events that the filter selects,
  \<open>None\<close> when the store rejects it.
\<close>

definition type_filter ::
  "(json \<Rightarrow> (json \<Rightarrow> bool) option) \<Rightarrow> json option \<Rightarrow> (event \<Rightarrow> bool) option" where
  "type_filter ops t =
     (case t of
        None \<Rightarrow> Some (\<lambda>e. True)
      | Some v \<Rightarrow>
          if \<not> truthy v then Some (\<lambda>e. True)
          else (case field_is ops v of
                  None \<Rightarrow> None
                | Some m \<Rightarrow> Some (\<lambda>e. m (eventType e))))"

text \<open>
  A regular expression on a stored value: only a string matches, and a title that is an
  array matches when one of its elements does.
\<close>

definition string_matches :: "(string \<Rightarrow> bool) \<Rightarrow> json \<Rightarrow> bool" where
  "string_matches m v = (case v of JStr t \<Rightarrow> m t | _ \<Rightarrow> False)"

definition title_matches :: "(string \<Rightarrow> bool) \<Rightarrow> event \<Rightarrow> bool" where
  "title_matches m e =
     (string_matches m (title e)
      \<or> (case title e of JArr xs \<Rightarrow> list_ex (string_matches m) xs | _ \<Rightarrow> False))"

text \<open>
  \<open>title: {$regex: search, $options: "i"}\<close>, set when \<open>search\<close> is truthy. The store
  takes a string as the pattern and rejects anything else.
\<close>

definition search_filter ::
  "(string \<Rightarrow> (string \<Rightarrow> bool) option) \<Rightarrow> json option \<Rightarrow> (event \<Rightarrow> bool) option" where
  "search_filter rx s =
     (case s of
        None \<Rightarrow> Some (\<lambda>e. True)
      | Some v \<Rightarrow>
          if \<not> truthy v then Some (\<lambda>e. True)
          else (case v of
                  JStr p \<Rightarrow> (case rx p of None \<Rightarrow> None | Some m \<Rightarrow> Some (title_matches m))
                | _ \<Rightarrow> None))"

text \<open>
  The handler builds the query and runs one \<open>find\<close>; when the store rejects the query
  the \<open>catch\<close> answers 500.
\<close>

definition get_events ::
  "(json \<Rightarrow> (json \<Rightarrow> bool) option) \<Rightarrow> (json \<Rightarrow> int option) \<Rightarrow>
   (string \<Rightarrow> (string \<Rightarrow> bool) option) \<Rightarrow> int \<Rightarrow> events_query \<Rightarrow> store \<Rightarrow> response" where
  "get_events ops parseInt rx now q st =
     (case type_filter ops (q_type q) of
        None \<Rightarrow> (500, Error ''Server error'')
      | Some tm \<Rightarrow>
          (case search_filter rx (q_search q) of
             None \<Rightarrow> (500, Error ''Server error'')
           | Some sm \<Rightarrow>
               (200, ViewsBody (map (enrich st)
                  (cursor_limit (limit_of parseInt (q_limit q))
                     (sort_key eventDate
                        (filter (\<lambda>e. now \<le> eventDate e \<and> tm e \<and> sm e) (events st))))))))"

subsection \<open>GET /events/:id\<close>

definition get_event :: "(string \<Rightarrow> nat option) \<Rightarrow> string \<Rightarrow> store \<Rightarrow> response" where
  "get_event mkOid idp st =
     (case mkOid idp of
        None \<Rightarrow> (500, Error ''Server error'')
      | Some eventId \<Rightarrow>
          (case find (\<lambda>e. eid e = eventId) (events st) of
             None \<Rightarrow> (404, Error ''Event not found'')
           | Some event \<Rightarrow>
               (200, ViewBody
                  \<lparr>v_event = event,
                   participants =
                     map project_joinedAt (filter (\<lambda>j. j_eventId j = eventId) (joins st)),
                   participantsCount = None\<rparr>)))"

subsection \<open>GET /manage/events\<close>

definition manage_events ::
  "(json \<Rightarrow> (json \<Rightarrow> bool) option) \<Rightarrow> identity \<Rightarrow> store \<Rightarrow> response" where
  "manage_events ops u st =
     (case field_is ops (email u) of
        None \<Rightarrow> (500, Error ''Server error'')
      | Some m \<Rightarrow>
          (200, ViewsBody (map (enrich st)
             (sort_key eventDate (filter (\<lambda>e. m (userEmail e)) (events st))))))"

subsection \<open>POST /events\<close>

record event_body =
  b_title :: "json option"
  b_description :: "json option"
  b_eventType :: "json option"
  b_thumbnailImage :: "json option"
  b_location :: "json option"
  b_eventDate :: "json option"

text \<open>A value as the store keeps it: an undefined property is written as null.\<close>

definition stored :: "json option \<Rightarrow> json" where
  "stored v = (case v of None \<Rightarrow> JNull | Some x \<Rightarrow> x)"

text \<open>
  The event is inserted under the generated identifier \<open>oid\<close>; the insert throws when the
  identifier is in use, and the handler's \<open>catch\<close> answers 400. The creator's join
  record is a second, separate insert.
\<close>

definition post_events ::
  "(json \<Rightarrow> int) \<Rightarrow> nat \<Rightarrow> int \<Rightarrow> identity \<Rightarrow> event_body \<Rightarrow> store \<Rightarrow> response \<times> store" where
  "post_events mkDate oid now u b st =
     (if falsy (b_title b) \<or> falsy (b_description b) \<or> falsy (b_eventType b)
         \<or> falsy (b_location b) \<or> falsy (b_eventDate b)
      then ((400, Error ''Missing required fields''), st)
      else
        let event =
              \<lparr>eid = oid,
               title = stored (b_title b),
               description = stored (b_description b),
               eventType = stored (b_eventType b),
               thumbnailImage = stored (b_thumbnailImage b),
               location = stored (b_location b),
               eventDate = mkDate (stored (b_eventDate b)),
               userEmail = email u,
               userName = displayName u,
               userPhotoURL = photoURL u,
               createdAt = now,
               updatedAt = now\<rparr>
        in if oid \<in> set (map eid (events st))
           then ((400, Error ''Invalid data''), st)
           else
             let st1 = st\<lparr>events := events st @ [event]\<rparr>
             in (case find (\<lambda>e. eid e = oid) (events st1) of
                   None \<Rightarrow> ((400, Error ''Invalid data''), st1)
                 | Some insertedEvent \<Rightarrow>
                     let joinData =
                           \<lparr>j_eventId = eid insertedEvent,
                            j_userEmail = email u,
                            j_userName = displayName u,
                            j_userPhotoURL = photoURL u,
                            j_joinedAt = now\<rparr>
                     in ((201, EventBody insertedEvent),
                         st1\<lparr>joins := joins st1 @ [joinData]\<rparr>)))"

subsection \<open>PUT /events/:id\<close>

text \<open>\<open>$set\<close> of the seven fields of \<open>updateData\<close> on the stored event.\<close>

definition set_event :: "(json \<Rightarrow> int) \<Rightarrow> int \<Rightarrow> event_body \<Rightarrow> event \<Rightarrow> event \<Rightarrow> event" where
  "set_event mkDate now b event doc =
     doc\<lparr>title := or_else (b_title b) (title event),
         description := or_else (b_description b) (description event),
         eventType := or_else (b_eventType b) (eventType event),
         thumbnailImage := or_else (b_thumbnailImage b) (thumbnailImage event),
         location := or_else (b_location b) (location event),
         eventDate := (if falsy (b_eventDate b) then eventDate event
                       else mkDate (stored (b_eventDate b))),
         updatedAt := now\<rparr>"

text \<open>
  The response's body is \<open>result.value\<close>, which depends on the driver's version and is
  left abstract.
\<close>

definition put_events ::
  "(string \<Rightarrow> nat option) \<Rightarrow> (json \<Rightarrow> int) \<Rightarrow> int \<Rightarrow> identity \<Rightarrow> string \<Rightarrow> event_body \<Rightarrow>
   store \<Rightarrow> response \<times> store" where
  "put_events mkOid mkDate now u eventId b st =
     (case mkOid eventId of
        None \<Rightarrow> ((500, Error ''Server error''), st)
      | Some i \<Rightarrow>
          (case find (\<lambda>e. eid e = i) (events st) of
             None \<Rightarrow> ((404, Error ''Event not found''), st)
           | Some event \<Rightarrow>
               if \<not> strict_eq (userEmail event) (email u)
               then ((403, Error ''Unauthorized - Can only update own events''), st)
               else ((200, ResultValue),
                     st\<lparr>events := update_first (\<lambda>e. eid e = i)
                                     (set_event mkDate now b event) (events st)\<rparr>)))"

subsection \<open>POST /events/:id/join\<close>

definition join_event ::
  "(json \<Rightarrow> (json \<Rightarrow> bool) option) \<Rightarrow> (string \<Rightarrow> nat option) \<Rightarrow> int \<Rightarrow> identity \<Rightarrow>
   string \<Rightarrow> store \<Rightarrow> response \<times> store" where
  "join_event ops mkOid now u eventId st =
     (case mkOid eventId of
        None \<Rightarrow> ((500, Error ''Server error''), st)
      | Some i \<Rightarrow>
          (case find (\<lambda>e. eid e = i) (events st) of
             None \<Rightarrow> ((404, Error ''Event not found''), st)
           | Some event \<Rightarrow>
               (case field_is ops (email u) of
                  None \<Rightarrow> ((500, Error ''Server error''), st)
                | Some m \<Rightarrow>
                    (case find (\<lambda>j. j_eventId j = i \<and> m (j_userEmail j)) (joins st) of
                       Some existingJoin \<Rightarrow> ((406, Error ''Already joined this event''), st)
                     | None \<Rightarrow>
                         let joinData =
                               \<lparr>j_eventId = i,
                                j_userEmail = email u,
                                j_userName = displayName u,
                                j_userPhotoURL = photoURL u,
                                j_joinedAt = now\<rparr>
                         in ((201, Message ''Successfully joined event''),
                             st\<lparr>joins := joins st @ [joinData]\<rparr>)))))"

subsection \<open>Requests in sequence\<close>

text \<open>
  The requests that write to the store, each with its \<open>Authorization\<close> header: the
  middleware runs first and the handler only after \<open>next()\<close>. POST /events also carries
  the identifier the driver generates for the new event.
\<close>

datatype request =
    PostUsers "string option" user_body
  | PostEvents "string option" nat event_body
  | PutEvents "string option" string event_body
  | JoinEvent "string option" string

definition step ::
  "(json \<Rightarrow> (json \<Rightarrow> bool) option) \<Rightarrow> (string \<Rightarrow> json option) \<Rightarrow> (string \<Rightarrow> nat option) \<Rightarrow>
   (json \<Rightarrow> int) \<Rightarrow> int \<Rightarrow> request \<Rightarrow> store \<Rightarrow> response \<times> store" where
  "step ops decode mkOid mkDate now r st =
     (case r of
        PostUsers h b \<Rightarrow>
          (case authenticate decode h of
             Inl resp \<Rightarrow> (resp, st)
           | Inr u \<Rightarrow> post_users ops now u b st)
      | PostEvents h oid b \<Rightarrow>
          (case authenticate decode h of
             Inl resp \<Rightarrow> (resp, st)
           | Inr u \<Rightarrow> post_events mkDate oid now u b st)
      | PutEvents h i b \<Rightarrow>
          (case authenticate decode h of
             Inl resp \<Rightarrow> (resp, st)
           | Inr u \<Rightarrow> put_events mkOid mkDate now u i b st)
      | JoinEvent h i \<Rightarrow>
          (case authenticate decode h of
             Inl resp \<Rightarrow> (resp, st)
           | Inr u \<Rightarrow> join_event ops mkOid now u i st))"

text \<open>The store after a sequence of requests, each handled at its own time.\<close>

fun run ::
  "(json \<Rightarrow> (json \<Rightarrow> bool) option) \<Rightarrow> (string \<Rightarrow> json option) \<Rightarrow> (string \<Rightarrow> nat option) \<Rightarrow>
   (json \<Rightarrow> int) \<Rightarrow> (int \<times> request) list \<Rightarrow> store \<Rightarrow> store" where
  "run ops decode mkOid mkDate [] st = st"
| "run ops decode mkOid mkDate (tr # rs) st =
     run ops decode mkOid mkDate rs (snd (step ops decode mkOid mkDate (fst tr) (snd tr) st))"

text \<open>
  A request to join by a caller whose email an equality filter reads as a value: every
  request but a POST /events/:id/join that passes the middleware with an email that is
  an expression of query operators.
\<close>

definition plain_join :: "(string \<Rightarrow> json option) \<Rightarrow> request \<Rightarrow> bool" where
  "plain_join decode r =
     (case r of
        JoinEvent h i \<Rightarrow>
          (case authenticate decode h of
             Inl resp \<Rightarrow> True
           | Inr u \<Rightarrow> \<not> is_operator_doc (email u))
      | _ \<Rightarrow> True)"

text \<open>The pair that identifies a participation.\<close>

definition join_key :: "join_record \<Rightarrow> nat \<times> json" where
  "join_key j = (j_eventId j, j_userEmail j)"

text \<open>
  What the handlers keep true of the store: event identifiers are unique, no pair has
  two join records, and every join record is of a stored event.
\<close>

definition consistent :: "store \<Rightarrow> bool" where
  "consistent st =
     (distinct (map eid (events st)) \<and> distinct (map join_key (joins st))
      \<and> set (map j_eventId (joins st)) \<subseteq> set (map eid (events st)))"

subsection \<open>The operator \<open>$in\<close>\<close>

text \<open>
  Of the store's query operators, \<open>{$in: [...]}\<close> alone: it selects the stored values
  that match one of the listed values, so none when the list is empty. On every other
  expression the store's answer is the parameter \<open>other\<close>.
\<close>

definition query_ops ::
  "(json \<Rightarrow> (json \<Rightarrow> bool) option) \<Rightarrow> json \<Rightarrow> (json \<Rightarrow> bool) option" where
  "query_ops other q =
     (case q of
        JObj [(k, JArr xs)] \<Rightarrow>
          if k = ''$in'' then Some (\<lambda>v. list_ex (\<lambda>x. value_is x v) xs) else other q
      | _ \<Rightarrow> other q)"

subsection \<open>Patterns of ordinary characters and dots\<close>








subsection \<open>Two users and an event\<close>

text \<open>Concrete inputs on which the theorems below are instantiated.\<close>

definition sample_decode :: "string \<Rightarrow> json option" where
  "sample_decode p =
     (if p = ''alice''
      then Some (JObj [(''email'', JStr ''alice@example.org''), (''name'', JStr ''Alice'')])
      else if p = ''bob'' then Some (JObj [(''email'', JStr ''bob@example.org'')])
      else if p = ''blank'' then Some (JObj [(''email'', JStr []), (''name'', JStr ''Nobody'')])
      else if p = ''ghost'' then Some (JObj [(''email'', JObj [(''$in'', JArr [])])])
      else None)"

definition sample_oid :: "string \<Rightarrow> nat option" where
  "sample_oid s = (if s = ''e7'' then Some 7 else if s = ''e8'' then Some 8 else None)"

definition sample_date :: "json \<Rightarrow> int" where
  "sample_date v = (case v of JNum n \<Rightarrow> n | _ \<Rightarrow> 0)"

definition sample_parseInt :: "json \<Rightarrow> int option" where
  "sample_parseInt v = (if v = JStr ''1'' then Some 1 else None)"

definition no_other_patterns :: "string \<Rightarrow> (string \<Rightarrow> bool) option" where
  "no_other_patterns pat = None"

definition no_other_ops :: "json \<Rightarrow> (json \<Rightarrow> bool) option" where
  "no_other_ops q = None"

definition sample_ops :: "json \<Rightarrow> (json \<Rightarrow> bool) option" where
  "sample_ops = query_ops no_other_ops"

text \<open>The identity of a token whose email is \<open>{"$in": []}\<close>.\<close>

definition ghost :: identity where
  "ghost = \<lparr>email = JObj [(''$in'', JArr [])], displayName = JStr ''Anonymous'',
            photoURL = JNull\<rparr>"

definition alice :: identity where
  "alice = \<lparr>email = JStr ''alice@example.org'', displayName = JStr ''Alice'', photoURL = JNull\<rparr>"

definition bob :: identity where
  "bob = \<lparr>email = JStr ''bob@example.org'', displayName = JStr ''Anonymous'', photoURL = JNull\<rparr>"

definition party_body :: event_body where
  "party_body =
     \<lparr>b_title = Some (JStr ''abc''), b_description = Some (JStr ''A party''),
      b_eventType = Some (JStr ''Social''), b_thumbnailImage = None,
      b_location = Some (JStr ''Park''), b_eventDate = Some (JNum 100)\<rparr>"

definition party :: event where
  "party =
     \<lparr>eid = 7, title = JStr ''abc'', description = JStr ''A party'',
      eventType = JStr ''Social'', thumbnailImage = JNull, location = JStr ''Park'',
      eventDate = 100, userEmail = JStr ''alice@example.org'', userName = JStr ''Alice'',
      userPhotoURL = JNull, createdAt = 10, updatedAt = 10\<rparr>"

definition alice_joined :: join_record where
  "alice_joined =
     \<lparr>j_eventId = 7, j_userEmail = JStr ''alice@example.org'', j_userName = JStr ''Alice'',
      j_userPhotoURL = JNull, j_joinedAt = 10\<rparr>"

text \<open>The store after Alice has created the party at time 10.\<close>

definition party_store :: store where
  "party_store = \<lparr>events = [party], users = [], joins = [alice_joined]\<rparr>"

definition no_query :: events_query where
  "no_query = \<lparr>q_type = None, q_search = None, q_limit = None\<rparr>"

definition hike :: event where
  "hike =
     \<lparr>eid = 9, title = JStr ''Hike'', description = JStr ''Up the hill'',
      eventType = JStr ''Sport'', thumbnailImage = JNull, location = JStr ''Hill'',
      eventDate = 200, userEmail = JStr ''bob@example.org'', userName = JStr ''Anonymous'',
      userPhotoURL = JNull, createdAt = 20, updatedAt = 20\<rparr>"

definition picnic :: event where
  "picnic =
     \<lparr>eid = 8, title = JStr ''Picnic'', description = JStr ''Bring food'',
      eventType = JStr ''Social'', thumbnailImage = JNull, location = JStr ''Park'',
      eventDate = 300, userEmail = JStr ''alice@example.org'', userName = JStr ''Alice'',
      userPhotoURL = JNull, createdAt = 15, updatedAt = 15\<rparr>"

definition quiet_alice :: user where
  "quiet_alice =
     \<lparr>u_email = JStr ''alice@example.org'', u_displayName = JStr ''Al'',
      u_photoURL = JStr ''al.png'',
      u_preferences = JObj [(''notifications'', JBool False), (''emailUpdates'', JBool False)],
      u_updatedAt = 5\<rparr>"

text \<open>A store with three events, not in the order of their dates.\<close>

definition busy_store :: store where
  "busy_store = \<lparr>events = [picnic, party, hike], users = [quiet_alice], joins = [alice_joined]\<rparr>"

definition loud_body :: user_body where
  "loud_body =
     \<lparr>b_displayName = None, b_photoURL = None,
      b_preferences = Some (JObj [(''notifications'', JBool False)])\<rparr>"

definition empty_user_body :: user_body where
  "empty_user_body = \<lparr>b_displayName = None, b_photoURL = None, b_preferences = None\<rparr>"


section \<open>Properties\<close>

subsection \<open>Lists of documents\<close>

lemma find_by_id:
  "distinct (map eid es) \<Longrightarrow> e \<in> set es \<Longrightarrow> find (\<lambda>x. eid x = eid e) es = Some e"
  by (induction es) (auto simp: rev_image_eqI)

lemma find_eid: "find (\<lambda>e. eid e = i) es = Some x \<Longrightarrow> eid x = i \<and> x \<in> set es"
  by (induction es) (auto split: if_splits)

lemma find_is_Some: "x \<in> set xs \<Longrightarrow> P x \<Longrightarrow> \<exists>y. find P xs = Some y"
  by (cases "find P xs") (auto simp: find_None_iff)

lemma find_append:
  "find P (xs @ ys) = (case find P xs of None \<Rightarrow> find P ys | Some x \<Rightarrow> Some x)"
  by (induction xs) auto

lemma find_update_first:
  "find P xs = Some x \<Longrightarrow> P (f x) \<Longrightarrow> find P (update_first P f xs) = Some (f x)"
  by (induction xs) (auto split: if_splits)

lemma update_first_by_id:
  "distinct (map eid es) \<Longrightarrow> e \<in> set es \<Longrightarrow>
   update_first (\<lambda>x. eid x = eid e) f es = map (\<lambda>x. if eid x = eid e then f x else x) es"
proof (induction es)
  case Nil
  then show ?case by simp
next
  case (Cons a es)
  show ?case
  proof (cases "eid a = eid e")
    case True
    with Cons.prems have "\<forall>x\<in>set es. eid x \<noteq> eid e" by (auto simp: rev_image_eqI)
    then have "map (\<lambda>x. if eid x = eid e then f x else x) es = es"
      by (simp add: map_idI)
    with True show ?thesis by simp
  next
    case False
    with Cons show ?thesis by auto
  qed
qed

lemma map_eid_update_first:
  "(\<And>x. eid (f x) = eid x) \<Longrightarrow> map eid (update_first P f es) = map eid es"
  by (induction es) auto

lemma eid_image_update_first:
  "(\<And>x. eid (f x) = eid x) \<Longrightarrow> eid ` set (update_first P f es) = eid ` set es"
  using map_eid_update_first [of f P es] by (metis set_map)

lemma eid_set_event: "eid (set_event mkDate now b event doc) = eid doc"
  by (simp add: set_event_def)

lemma strict_eq_same: "strict_eq a b \<Longrightarrow> a = b"
  by (induction a b rule: strict_eq.induct) auto

lemma value_is_same: "value_is q q"
  by (simp add: value_is_def)

lemma field_is_plain: "\<not> is_operator_doc q \<Longrightarrow> field_is ops q = Some (value_is q)"
  by (simp add: field_is_def)

lemma find_Some_ex: "find P xs = Some x \<Longrightarrow> list_ex P xs"
  by (induction xs) (auto split: if_splits)

lemma update_first_index:
  "find P xs = Some x \<Longrightarrow>
   \<exists>i<length xs. P (xs ! i) \<and> (\<forall>j<i. \<not> P (xs ! j)) \<and> update_first P f xs = xs[i := f x]"
proof (induction xs)
  case Nil
  then show ?case by simp
next
  case (Cons a xs)
  show ?case
  proof (cases "P a")
    case True
    with Cons.prems have "x = a" by simp
    with True show ?thesis by (intro exI [of _ 0]) simp
  next
    case False
    with Cons.prems have "find P xs = Some x" by simp
    then obtain i where i: "i < length xs" "P (xs ! i)" "\<forall>j<i. \<not> P (xs ! j)"
      "update_first P f xs = xs[i := f x]"
      using Cons.IH by blast
    have "\<forall>j<Suc i. \<not> P ((a # xs) ! j)"
    proof (intro allI impI)
      fix j assume "j < Suc i"
      then show "\<not> P ((a # xs) ! j)" using False i(3) by (cases j) auto
    qed
    with False i show ?thesis by (intro exI [of _ "Suc i"]) simp
  qed
qed

lemma set_user_all: "set_user updateData (doc :: user) = updateData"
  by (cases doc, cases updateData) (simp add: set_user_def)

subsection \<open>The sample data\<close>

lemma party_created:
  "post_events sample_date 7 10 alice party_body empty_store = ((201, EventBody party), party_store)"
  by (simp add: post_events_def falsy_def party_body_def alice_def empty_store_def party_def
      party_store_def alice_joined_def stored_def sample_date_def Let_def)

lemma alice_auth: "authenticate sample_decode (Some ''Bearer h.alice.s'') = Inr alice"
  by (simp add: authenticate_def startsWith_def bearer_token_def token_payload_def at_index_def
      sample_decode_def identity_of_def falsy_def or_else_def alice_def)

lemma bob_auth: "authenticate sample_decode (Some ''Bearer h.bob.s'') = Inr bob"
  by (simp add: authenticate_def startsWith_def bearer_token_def token_payload_def at_index_def
      sample_decode_def identity_of_def falsy_def or_else_def bob_def)

lemma ghost_auth: "authenticate sample_decode (Some ''Bearer h.ghost.s'') = Inr ghost"
  by (simp add: authenticate_def startsWith_def bearer_token_def token_payload_def at_index_def
      sample_decode_def identity_of_def falsy_def or_else_def ghost_def)

lemma ghost_filter: "field_is sample_ops (JObj [(''$in'', JArr [])]) = Some (\<lambda>v. False)"
  by (simp add: field_is_def is_operator_doc_def sample_ops_def query_ops_def)

lemma string_filter: "field_is ops (JStr s) = Some (value_is (JStr s))"
  by (simp add: field_is_def is_operator_doc_def)

lemma detail_of_party:
  "get_event sample_oid ''e7'' party_store =
     (200, ViewBody \<lparr>v_event = party, participants = [project_joinedAt alice_joined],
                     participantsCount = None\<rparr>)"
  by (simp add: get_event_def sample_oid_def party_store_def party_def alice_joined_def)

subsection \<open>The store stays consistent\<close>

lemma consistent_post_users:
  "consistent st \<Longrightarrow> consistent (snd (post_users ops now u b st))"
  by (simp add: post_users_def consistent_def Let_def split: option.splits)

lemma consistent_put_events:
  "consistent st \<Longrightarrow> consistent (snd (put_events mkOid mkDate now u i b st))"
  by (simp add: put_events_def consistent_def map_eid_update_first
      eid_image_update_first eid_set_event split: option.splits)

lemma consistent_join_event:
  assumes "consistent st" and "\<not> is_operator_doc (email u)"
  shows "consistent (snd (join_event ops mkOid now u i st))"
proof (cases "mkOid i")
  case None
  with assms show ?thesis by (simp add: join_event_def)
next
  case (Some k)
  show ?thesis
  proof (cases "find (\<lambda>e. eid e = k) (events st)")
    case None
    with Some assms show ?thesis by (simp add: join_event_def)
  next
    case ev: (Some event)
    then have k: "k \<in> set (map eid (events st))" using find_eid by fastforce
    note m = field_is_plain [OF assms(2), of ops]
    show ?thesis
    proof (cases "find (\<lambda>j. j_eventId j = k \<and> value_is (email u) (j_userEmail j)) (joins st)")
      case None
      then have "(k, email u) \<notin> set (map join_key (joins st))"
        by (auto simp: find_None_iff join_key_def value_is_same)
      with None Some ev k m assms(1) show ?thesis
        by (auto simp: join_event_def consistent_def Let_def join_key_def)
    next
      case (Some a)
      with \<open>mkOid i = Some k\<close> ev m assms(1) show ?thesis by (simp add: join_event_def)
    qed
  qed
qed

lemma consistent_post_events:
  assumes "consistent st"
  shows "consistent (snd (post_events mkDate oid now u b st))"
proof (cases "falsy (b_title b) \<or> falsy (b_description b) \<or> falsy (b_eventType b)
         \<or> falsy (b_location b) \<or> falsy (b_eventDate b)")
  case True
  with assms show ?thesis by (simp add: post_events_def)
next
  case ok: False
  show ?thesis
  proof (cases "oid \<in> set (map eid (events st))")
    case True
    with ok assms show ?thesis by (simp add: post_events_def Let_def)
  next
    case False
    then have nf: "find (\<lambda>e. eid e = oid) (events st) = None"
      by (auto simp: find_None_iff)
    from False assms have "(oid, email u) \<notin> set (map join_key (joins st))"
      by (auto simp: consistent_def join_key_def)
    with ok False assms show ?thesis
      by (auto simp: post_events_def Let_def consistent_def join_key_def find_append nf)
  qed
qed

lemma consistent_step:
  "consistent st \<Longrightarrow> plain_join decode r \<Longrightarrow>
   consistent (snd (step ops decode mkOid mkDate now r st))"
  by (cases r)
     (auto simp: step_def plain_join_def consistent_post_users consistent_post_events
        consistent_put_events consistent_join_event split: sum.splits)

lemma consistent_run:
  "consistent st \<Longrightarrow> list_all (\<lambda>tr. plain_join decode (snd tr)) rs \<Longrightarrow>
   consistent (run ops decode mkOid mkDate rs st)"
  by (induction rs arbitrary: st) (auto simp: consistent_step)

lemma consistent_empty: "consistent empty_store"
  by (simp add: consistent_def empty_store_def)

text \<open>
  Claim C5, as the code has it. Auto-join at event creation and POST /events/:id/join
  are the only writers of join records. Whatever requests are handled one after the
  other, starting from the empty store, the join records never hold two records of the
  same pair of event identifier and user email, as long as no caller of
  POST /events/:id/join has an email that is an expression of query operators.
\<close>

theorem join_records_unique:
  assumes "list_all (\<lambda>tr. plain_join decode (snd tr)) rs"
  shows "distinct (map join_key (joins (run ops decode mkOid mkDate rs empty_store)))"
  using consistent_run [OF consistent_empty assms] by (simp add: consistent_def)

text \<open>Alice creates the party, Bob joins it, and Bob tries again.\<close>

theorem join_records_unique_witness:
  "list_all (\<lambda>tr. plain_join sample_decode (snd tr))
     [(10, PostEvents (Some ''Bearer h.alice.s'') 7 party_body),
      (20, JoinEvent (Some ''Bearer h.bob.s'') ''e7''),
      (30, JoinEvent (Some ''Bearer h.bob.s'') ''e7'')]
   \<and> distinct (map join_key (joins (run sample_ops sample_decode sample_oid sample_date
        [(10, PostEvents (Some ''Bearer h.alice.s'') 7 party_body),
         (20, JoinEvent (Some ''Bearer h.bob.s'') ''e7''),
         (30, JoinEvent (Some ''Bearer h.bob.s'') ''e7'')] empty_store)))
   \<and> length (joins (run sample_ops sample_decode sample_oid sample_date
        [(10, PostEvents (Some ''Bearer h.alice.s'') 7 party_body),
         (20, JoinEvent (Some ''Bearer h.bob.s'') ''e7''),
         (30, JoinEvent (Some ''Bearer h.bob.s'') ''e7'')] empty_store)) = 2"
proof -
  let ?rs = "[(10, PostEvents (Some ''Bearer h.alice.s'') 7 party_body),
      (20, JoinEvent (Some ''Bearer h.bob.s'') ''e7''),
      (30, JoinEvent (Some ''Bearer h.bob.s'') ''e7'')]"
  have pb: "\<not> is_operator_doc (email bob)" by (simp add: is_operator_doc_def bob_def)
  then have h: "list_all (\<lambda>tr. plain_join sample_decode (snd tr)) ?rs"
    by (simp add: plain_join_def bob_auth)
  have j1: "join_event sample_ops sample_oid 20 bob ''e7'' party_store
      = ((201, Message ''Successfully joined event''),
         party_store\<lparr>joins := [alice_joined, \<lparr>j_eventId = 7, j_userEmail = email bob,
           j_userName = displayName bob, j_userPhotoURL = photoURL bob, j_joinedAt = 20\<rparr>]\<rparr>)"
    by (simp add: join_event_def string_filter sample_oid_def party_store_def party_def
        alice_joined_def value_is_def bob_def)
  have j2: "join_event sample_ops sample_oid 30 bob ''e7''
        (party_store\<lparr>joins := [alice_joined, \<lparr>j_eventId = 7, j_userEmail = email bob,
           j_userName = displayName bob, j_userPhotoURL = photoURL bob, j_joinedAt = 20\<rparr>]\<rparr>)
      = ((406, Error ''Already joined this event''),
         party_store\<lparr>joins := [alice_joined, \<lparr>j_eventId = 7, j_userEmail = email bob,
           j_userName = displayName bob, j_userPhotoURL = photoURL bob, j_joinedAt = 20\<rparr>]\<rparr>)"
    by (simp add: join_event_def string_filter sample_oid_def party_store_def party_def
        alice_joined_def value_is_def bob_def)
  have r: "run sample_ops sample_decode sample_oid sample_date ?rs empty_store
      = party_store\<lparr>joins := [alice_joined, \<lparr>j_eventId = 7, j_userEmail = email bob,
           j_userName = displayName bob, j_userPhotoURL = photoURL bob, j_joinedAt = 20\<rparr>]\<rparr>"
    by (simp add: step_def alice_auth bob_auth party_created j1 j2)
  have len: "length (joins (run sample_ops sample_decode sample_oid sample_date ?rs
      empty_store)) = 2"
    unfolding r by simp
  show ?thesis
    using h len join_records_unique [OF h, of sample_ops sample_oid sample_date] by blast
qed

text \<open>
  A token whose email is \<open>{"$in": []}\<close> passes the middleware. The handler's check for
  an existing join record then selects nothing, so the same caller joins the party twice
  and the two join records are of the same pair.
\<close>

theorem operator_email_joins_twice:
  "authenticate sample_decode (Some ''Bearer h.ghost.s'') = Inr ghost
   \<and> joins (run sample_ops sample_decode sample_oid sample_date
        [(10, PostEvents (Some ''Bearer h.alice.s'') 7 party_body),
         (20, JoinEvent (Some ''Bearer h.ghost.s'') ''e7''),
         (30, JoinEvent (Some ''Bearer h.ghost.s'') ''e7'')] empty_store)
      = [alice_joined,
         \<lparr>j_eventId = 7, j_userEmail = JObj [(''$in'', JArr [])],
          j_userName = JStr ''Anonymous'', j_userPhotoURL = JNull, j_joinedAt = 20\<rparr>,
         \<lparr>j_eventId = 7, j_userEmail = JObj [(''$in'', JArr [])],
          j_userName = JStr ''Anonymous'', j_userPhotoURL = JNull, j_joinedAt = 30\<rparr>]
   \<and> \<not> distinct (map join_key (joins (run sample_ops sample_decode sample_oid sample_date
        [(10, PostEvents (Some ''Bearer h.alice.s'') 7 party_body),
         (20, JoinEvent (Some ''Bearer h.ghost.s'') ''e7''),
         (30, JoinEvent (Some ''Bearer h.ghost.s'') ''e7'')] empty_store)))"
proof -
  let ?g = "\<lambda>t. \<lparr>j_eventId = 7, j_userEmail = JObj [(''$in'', JArr [])],
          j_userName = JStr ''Anonymous'', j_userPhotoURL = JNull, j_joinedAt = t\<rparr>"
  have j1: "join_event sample_ops sample_oid 20 ghost ''e7'' party_store
      = ((201, Message ''Successfully joined event''),
         party_store\<lparr>joins := [alice_joined, ?g 20]\<rparr>)"
    by (simp add: join_event_def ghost_filter sample_oid_def party_store_def party_def
        ghost_def)
  have j2: "join_event sample_ops sample_oid 30 ghost ''e7''
        (party_store\<lparr>joins := [alice_joined, ?g 20]\<rparr>)
      = ((201, Message ''Successfully joined event''),
         party_store\<lparr>joins := [alice_joined, ?g 20, ?g 30]\<rparr>)"
    by (simp add: join_event_def ghost_filter sample_oid_def party_store_def party_def
        ghost_def)
  have r: "joins (run sample_ops sample_decode sample_oid sample_date
        [(10, PostEvents (Some ''Bearer h.alice.s'') 7 party_body),
         (20, JoinEvent (Some ''Bearer h.ghost.s'') ''e7''),
         (30, JoinEvent (Some ''Bearer h.ghost.s'') ''e7'')] empty_store)
      = [alice_joined, ?g 20, ?g 30]"
    by (simp add: step_def alice_auth ghost_auth party_created j1 j2)
  have nd: "\<not> distinct (map join_key [alice_joined, ?g 20, ?g 30])"
    by (simp add: join_key_def)
  show ?thesis using ghost_auth r nd by simp
qed

subsection \<open>Joining an event\<close>

text \<open>No handler removes an event or a join record.\<close>

lemma step_keeps_events:
  "set (map eid (events st)) \<subseteq> set (map eid (events (snd (step ops decode mkOid mkDate now r st))))"
proof (cases r)
  case (PostUsers h b)
  then show ?thesis
    by (simp add: step_def post_users_def Let_def split: sum.splits option.splits)
next
  case (PostEvents h oid b)
  then show ?thesis
    by (auto simp: step_def post_events_def Let_def split: sum.splits option.splits)
next
  case (PutEvents h i b)
  then show ?thesis
    by (simp add: step_def put_events_def eid_image_update_first eid_set_event
        split: sum.splits option.splits)
next
  case (JoinEvent h i)
  then show ?thesis
    by (simp add: step_def join_event_def Let_def split: sum.splits option.splits)
qed

lemma step_keeps_joins:
  "set (joins st) \<subseteq> set (joins (snd (step ops decode mkOid mkDate now r st)))"
proof (cases r)
  case (PostUsers h b)
  then show ?thesis
    by (simp add: step_def post_users_def Let_def split: sum.splits option.splits)
next
  case (PostEvents h oid b)
  then show ?thesis
    by (auto simp: step_def post_events_def Let_def split: sum.splits option.splits)
next
  case (PutEvents h i b)
  then show ?thesis
    by (simp add: step_def put_events_def split: sum.splits option.splits)
next
  case (JoinEvent h i)
  then show ?thesis
    by (auto simp: step_def join_event_def Let_def split: sum.splits option.splits)
qed

lemma run_keeps_events:
  "set (map eid (events st)) \<subseteq> set (map eid (events (run ops decode mkOid mkDate rs st)))"
proof (induction rs arbitrary: st)
  case Nil
  then show ?case by simp
next
  case (Cons tr rs)
  have "set (map eid (events st))
      \<subseteq> set (map eid (events (snd (step ops decode mkOid mkDate (fst tr) (snd tr) st))))"
    by (rule step_keeps_events)
  also have "\<dots> \<subseteq> set (map eid (events (run ops decode mkOid mkDate (tr # rs) st)))"
    using Cons.IH by simp
  finally show ?case .
qed

lemma run_keeps_joins:
  "set (joins st) \<subseteq> set (joins (run ops decode mkOid mkDate rs st))"
proof (induction rs arbitrary: st)
  case Nil
  then show ?case by simp
next
  case (Cons tr rs)
  have "set (joins st)
      \<subseteq> set (joins (snd (step ops decode mkOid mkDate (fst tr) (snd tr) st)))"
    by (rule step_keeps_joins)
  also have "\<dots> \<subseteq> set (joins (run ops decode mkOid mkDate (tr # rs) st))"
    using Cons.IH by simp
  finally show ?case .
qed

lemma join_event_again:
  assumes "mkOid idp = Some i" and "i \<in> set (map eid (events st))"
    and "j \<in> set (joins st)" and "j_eventId j = i" and "j_userEmail j = email u"
    and "\<not> is_operator_doc (email u)"
  shows "join_event ops mkOid now u idp st = ((406, Error ''Already joined this event''), st)"
proof -
  from assms(2) obtain e where "e \<in> set (events st)" "eid e = i" by auto
  then obtain e' where e': "find (\<lambda>e. eid e = i) (events st) = Some e'"
    using find_is_Some [of e "events st" "\<lambda>e. eid e = i"] by auto
  from assms(3-5) obtain j'
    where j': "find (\<lambda>j. j_eventId j = i \<and> value_is (email u) (j_userEmail j)) (joins st)
        = Some j'"
    using find_is_Some [of j "joins st"
        "\<lambda>j. j_eventId j = i \<and> value_is (email u) (j_userEmail j)"]
    by (auto simp: value_is_same)
  show ?thesis
    by (simp add: join_event_def assms(1) e' j' field_is_plain [OF assms(6)])
qed

lemma join_event_new:
  assumes "mkOid idp = Some i" and "i \<in> set (map eid (events st))"
    and "\<not> is_operator_doc (email u)"
    and "\<not> list_ex (\<lambda>j. j_eventId j = i \<and> value_is (email u) (j_userEmail j)) (joins st)"
  shows "join_event ops mkOid now u idp st =
     ((201, Message ''Successfully joined event''),
      st\<lparr>joins := joins st @ [\<lparr>j_eventId = i, j_userEmail = email u,
        j_userName = displayName u, j_userPhotoURL = photoURL u, j_joinedAt = now\<rparr>]\<rparr>)"
proof -
  from assms(2) obtain e where "e \<in> set (events st)" "eid e = i" by auto
  then obtain e' where e': "find (\<lambda>e. eid e = i) (events st) = Some e'"
    using find_is_Some [of e "events st" "\<lambda>e. eid e = i"] by auto
  from assms(4)
  have none: "find (\<lambda>j. j_eventId j = i \<and> value_is (email u) (j_userEmail j)) (joins st)
      = None"
    by (auto simp: find_None_iff list_ex_iff)
  show ?thesis
    by (simp add: join_event_def assms(1) e' none field_is_plain [OF assms(3)])
qed

text \<open>
  Claim C2, as the code has it. For a stored event and an authenticated user whose
  email is not an expression of query operators and is found by the store in no join
  record of that event, POST /events/:id/join answers 201 and appends exactly one join
  record, for that pair. After that, and after whatever further requests, a call for the
  same event and the same email answers 406 and leaves the store as it is.
\<close>

theorem join_event_once:
  assumes "mkOid idp = Some i" and "i \<in> set (map eid (events st))"
    and "\<not> is_operator_doc (email u)"
    and "\<not> list_ex (\<lambda>j. j_eventId j = i \<and> value_is (email u) (j_userEmail j)) (joins st)"
  shows "join_event ops mkOid now u idp st =
           ((201, Message ''Successfully joined event''),
            st\<lparr>joins := joins st @ [\<lparr>j_eventId = i, j_userEmail = email u,
              j_userName = displayName u, j_userPhotoURL = photoURL u, j_joinedAt = now\<rparr>]\<rparr>)
         \<and> (email u' = email u \<longrightarrow>
              join_event ops mkOid now' u' idp
                (run ops decode mkOid mkDate rs (snd (join_event ops mkOid now u idp st)))
              = ((406, Error ''Already joined this event''),
                 run ops decode mkOid mkDate rs (snd (join_event ops mkOid now u idp st))))"
proof (intro conjI impI)
  let ?j = "\<lparr>j_eventId = i, j_userEmail = email u,
              j_userName = displayName u, j_userPhotoURL = photoURL u, j_joinedAt = now\<rparr>"
  let ?st1 = "st\<lparr>joins := joins st @ [?j]\<rparr>"
  show first: "join_event ops mkOid now u idp st
      = ((201, Message ''Successfully joined event''), ?st1)"
    using assms by (rule join_event_new)
  assume same: "email u' = email u"
  let ?st2 = "run ops decode mkOid mkDate rs ?st1"
  have "i \<in> set (map eid (events ?st1))" using assms(2) by simp
  then have ev: "i \<in> set (map eid (events ?st2))"
    using run_keeps_events [of ?st1 ops decode mkOid mkDate rs] by blast
  have "?j \<in> set (joins ?st1)" by simp
  then have jn: "?j \<in> set (joins ?st2)"
    using run_keeps_joins [of ?st1 ops decode mkOid mkDate rs] by blast
  have "join_event ops mkOid now' u' idp ?st2
      = ((406, Error ''Already joined this event''), ?st2)"
    using assms(1) ev jn by (rule join_event_again) (simp_all add: same assms(3))
  then show "join_event ops mkOid now' u' idp
                (run ops decode mkOid mkDate rs (snd (join_event ops mkOid now u idp st)))
              = ((406, Error ''Already joined this event''),
                 run ops decode mkOid mkDate rs (snd (join_event ops mkOid now u idp st)))"
    by (simp add: first)
qed

text \<open>The theorem at Bob joining Alice's party, with a request by Alice in between.\<close>

theorem join_event_once_witness:
  "sample_oid ''e7'' = Some 7 \<and> 7 \<in> set (map eid (events party_store))
   \<and> \<not> is_operator_doc (email bob)
   \<and> \<not> list_ex (\<lambda>j. j_eventId j = 7 \<and> value_is (email bob) (j_userEmail j))
         (joins party_store)
   \<and> email bob = email bob
   \<and> fst (join_event sample_ops sample_oid 20 bob ''e7'' party_store)
       = (201, Message ''Successfully joined event'')
   \<and> length (joins (snd (join_event sample_ops sample_oid 20 bob ''e7'' party_store))) = 2
   \<and> fst (join_event sample_ops sample_oid 30 bob ''e7''
        (run sample_ops sample_decode sample_oid sample_date
           [(25, JoinEvent (Some ''Bearer h.alice.s'') ''e7'')]
           (snd (join_event sample_ops sample_oid 20 bob ''e7'' party_store))))
       = (406, Error ''Already joined this event'')"
proof -
  have h1: "sample_oid ''e7'' = Some 7" by (simp add: sample_oid_def)
  have h2: "7 \<in> set (map eid (events party_store))" by (simp add: party_store_def party_def)
  have h3: "\<not> is_operator_doc (email bob)" by (simp add: is_operator_doc_def bob_def)
  have h4: "\<not> list_ex (\<lambda>j. j_eventId j = 7 \<and> value_is (email bob) (j_userEmail j))
         (joins party_store)"
    by (simp add: party_store_def alice_joined_def value_is_def bob_def)
  note t = join_event_once [where mkOid = sample_oid and idp = "''e7''" and i = 7
      and st = party_store and u = bob and u' = bob and now = 20 and now' = 30
      and ops = sample_ops and decode = sample_decode and mkDate = sample_date
      and rs = "[(25, JoinEvent (Some ''Bearer h.alice.s'') ''e7'')]", OF h1 h2 h3 h4]
  from t have first: "join_event sample_ops sample_oid 20 bob ''e7'' party_store =
      ((201, Message ''Successfully joined event''),
       party_store\<lparr>joins := joins party_store @ [\<lparr>j_eventId = 7, j_userEmail = email bob,
         j_userName = displayName bob, j_userPhotoURL = photoURL bob, j_joinedAt = 20\<rparr>]\<rparr>)"
    by (rule conjunct1)
  from t have again: "join_event sample_ops sample_oid 30 bob ''e7''
        (run sample_ops sample_decode sample_oid sample_date
           [(25, JoinEvent (Some ''Bearer h.alice.s'') ''e7'')]
           (snd (join_event sample_ops sample_oid 20 bob ''e7'' party_store)))
       = ((406, Error ''Already joined this event''),
          run sample_ops sample_decode sample_oid sample_date
           [(25, JoinEvent (Some ''Bearer h.alice.s'') ''e7'')]
           (snd (join_event sample_ops sample_oid 20 bob ''e7'' party_store)))"
    by blast
  have c1: "fst (join_event sample_ops sample_oid 20 bob ''e7'' party_store)
       = (201, Message ''Successfully joined event'')"
    by (simp only: first fst_conv)
  have c2: "length (joins (snd (join_event sample_ops sample_oid 20 bob ''e7'' party_store)))
      = 2"
    unfolding first by (simp add: party_store_def)
  have c3: "fst (join_event sample_ops sample_oid 30 bob ''e7''
        (run sample_ops sample_decode sample_oid sample_date
           [(25, JoinEvent (Some ''Bearer h.alice.s'') ''e7'')]
           (snd (join_event sample_ops sample_oid 20 bob ''e7'' party_store))))
       = (406, Error ''Already joined this event'')"
    by (simp only: again fst_conv)
  show ?thesis using h1 h2 h3 h4 c1 c2 c3 by blast
qed

text \<open>
  The creator of an event has a join record from the creation on: the first call of
  POST /events/:id/join by Alice for the party she created answers 406, not 201.
\<close>

theorem creator_first_join_call:
  "run sample_ops sample_decode sample_oid sample_date
     [(10, PostEvents (Some ''Bearer h.alice.s'') 7 party_body)] empty_store = party_store
   \<and> step sample_ops sample_decode sample_oid sample_date 11
       (JoinEvent (Some ''Bearer h.alice.s'') ''e7'')
       party_store = ((406, Error ''Already joined this event''), party_store)"
proof -
  have again: "join_event sample_ops sample_oid 11 alice ''e7'' party_store
      = ((406, Error ''Already joined this event''), party_store)"
    by (simp add: join_event_def string_filter sample_oid_def party_store_def party_def
        alice_joined_def alice_def value_is_def)
  show ?thesis
    by (simp add: step_def alice_auth party_created again)
qed

subsection \<open>Updating an event\<close>

text \<open>
  Claim C3. For a stored event and an authenticated caller whose email is not the
  event's \<open>userEmail\<close>, PUT /events/:id answers 403 and the store is the same after
  the request as before.
\<close>

theorem put_events_non_owner:
  assumes "distinct (map eid (events st))" and "event \<in> set (events st)"
    and "mkOid idp = Some (eid event)" and "userEmail event \<noteq> email u"
  shows "put_events mkOid mkDate now u idp b st =
     ((403, Error ''Unauthorized - Can only update own events''), st)"
  using assms strict_eq_same [of "userEmail event" "email u"]
  by (auto simp: put_events_def find_by_id)

text \<open>Bob tries to update Alice's party.\<close>

theorem put_events_non_owner_witness:
  "distinct (map eid (events party_store)) \<and> party \<in> set (events party_store)
   \<and> sample_oid ''e7'' = Some (eid party) \<and> userEmail party \<noteq> email bob
   \<and> put_events sample_oid sample_date 50 bob ''e7'' party_body party_store =
     ((403, Error ''Unauthorized - Can only update own events''), party_store)"
proof -
  have h1: "distinct (map eid (events party_store))" by (simp add: party_store_def)
  have h2: "party \<in> set (events party_store)" by (simp add: party_store_def)
  have h3: "sample_oid ''e7'' = Some (eid party)" by (simp add: sample_oid_def party_def)
  have h4: "userEmail party \<noteq> email bob" by (simp add: party_def bob_def)
  show ?thesis
    using h1 h2 h3 h4
      put_events_non_owner [where mkOid = sample_oid and idp = "''e7''" and event = party
        and st = party_store and u = bob and mkDate = sample_date and now = 50
        and b = party_body, OF h1 h2 h3 h4]
    by simp
qed

text \<open>
  Claim C4. A PUT /events/:id of a stored event by a caller whose email is strictly
  equal to the event's \<open>userEmail\<close> answers 200 whatever the
  body, and replaces that event by one with the same identifier, \<open>userEmail\<close>,
  \<open>userName\<close>, \<open>userPhotoURL\<close> and \<open>createdAt\<close>: it differs from the stored
  event at most in title, description, eventType, thumbnailImage, location, eventDate and
  updatedAt. Every other event, the users and the join records are untouched.
\<close>

theorem put_events_owner_frame:
  assumes "distinct (map eid (events st))" and "event \<in> set (events st)"
    and "mkOid idp = Some (eid event)" and "strict_eq (userEmail event) (email u)"
  shows "\<exists>e'.
     put_events mkOid mkDate now u idp b st =
       ((200, ResultValue),
        st\<lparr>events := map (\<lambda>e. if eid e = eid event then e' else e) (events st)\<rparr>)
     \<and> eid e' = eid event
     \<and> userEmail e' = userEmail event \<and> userName e' = userName event
     \<and> userPhotoURL e' = userPhotoURL event \<and> createdAt e' = createdAt event
     \<and> e' = event\<lparr>title := title e', description := description e',
                  eventType := eventType e', thumbnailImage := thumbnailImage e',
                  location := location e', eventDate := eventDate e',
                  updatedAt := updatedAt e'\<rparr>"
proof -
  let ?e' = "set_event mkDate now b event event"
  have "map (\<lambda>x. if eid x = eid event then set_event mkDate now b event x else x) (events st)
      = map (\<lambda>x. if eid x = eid event then ?e' else x) (events st)"
  proof (rule map_cong [OF refl])
    fix x assume "x \<in> set (events st)"
    then have "eid x = eid event \<Longrightarrow> x = event"
      using assms(1,2) by (meson distinct_map inj_onD)
    then show "(if eid x = eid event then set_event mkDate now b event x else x)
        = (if eid x = eid event then ?e' else x)"
      by auto
  qed
  then have r: "put_events mkOid mkDate now u idp b st =
       ((200, ResultValue),
        st\<lparr>events := map (\<lambda>e. if eid e = eid event then ?e' else e) (events st)\<rparr>)"
    using assms by (simp add: put_events_def find_by_id update_first_by_id)
  have fr: "eid ?e' = eid event" "userEmail ?e' = userEmail event"
    "userName ?e' = userName event" "userPhotoURL ?e' = userPhotoURL event"
    "createdAt ?e' = createdAt event"
    by (simp_all add: set_event_def)
  have only: "?e' = event\<lparr>title := title ?e', description := description ?e',
                  eventType := eventType ?e', thumbnailImage := thumbnailImage ?e',
                  location := location ?e', eventDate := eventDate ?e',
                  updatedAt := updatedAt ?e'\<rparr>"
    by (simp add: set_event_def)
  show ?thesis using r fr only by blast
qed

text \<open>Alice renames her party in a store of three events.\<close>

theorem put_events_owner_frame_witness:
  "distinct (map eid (events busy_store)) \<and> party \<in> set (events busy_store)
   \<and> sample_oid ''e7'' = Some (eid party) \<and> strict_eq (userEmail party) (email alice)
   \<and> fst (put_events sample_oid sample_date 50 alice ''e7''
        (party_body\<lparr>b_title := Some (JStr ''Gala'')\<rparr>) busy_store) = (200, ResultValue)
   \<and> map userEmail (events (snd (put_events sample_oid sample_date 50 alice ''e7''
        (party_body\<lparr>b_title := Some (JStr ''Gala'')\<rparr>) busy_store)))
      = map userEmail (events busy_store)
   \<and> map createdAt (events (snd (put_events sample_oid sample_date 50 alice ''e7''
        (party_body\<lparr>b_title := Some (JStr ''Gala'')\<rparr>) busy_store)))
      = map createdAt (events busy_store)"
proof -
  have h1: "distinct (map eid (events busy_store))"
    by (simp add: busy_store_def party_def hike_def picnic_def)
  have h2: "party \<in> set (events busy_store)" by (simp add: busy_store_def)
  have h3: "sample_oid ''e7'' = Some (eid party)" by (simp add: sample_oid_def party_def)
  have h4: "strict_eq (userEmail party) (email alice)" by (simp add: party_def alice_def)
  let ?b = "party_body\<lparr>b_title := Some (JStr ''Gala'')\<rparr>"
  obtain e' where all: "put_events sample_oid sample_date 50 alice ''e7'' ?b busy_store =
       ((200, ResultValue),
        busy_store\<lparr>events := map (\<lambda>e. if eid e = eid party then e' else e) (events busy_store)\<rparr>)
     \<and> eid e' = eid party
     \<and> userEmail e' = userEmail party \<and> userName e' = userName party
     \<and> userPhotoURL e' = userPhotoURL party \<and> createdAt e' = createdAt party
     \<and> e' = party\<lparr>title := title e', description := description e',
                  eventType := eventType e', thumbnailImage := thumbnailImage e',
                  location := location e', eventDate := eventDate e',
                  updatedAt := updatedAt e'\<rparr>"
    using put_events_owner_frame [where mkOid = sample_oid and idp = "''e7''" and event = party
        and st = busy_store and u = alice and mkDate = sample_date and now = 50 and b = ?b,
        OF h1 h2 h3 h4] ..
  note r = all [THEN conjunct1]
  from all have fr: "userEmail e' = userEmail party" "createdAt e' = createdAt party"
    by simp_all
  have ids: "eid picnic \<noteq> eid party" "eid hike \<noteq> eid party"
    by (simp_all add: picnic_def hike_def party_def)
  have c1: "fst (put_events sample_oid sample_date 50 alice ''e7'' ?b busy_store)
      = (200, ResultValue)"
    unfolding r by simp
  have c2: "map userEmail (events (snd (put_events sample_oid sample_date 50 alice ''e7''
        ?b busy_store))) = map userEmail (events busy_store)"
    unfolding r using fr ids by (simp add: busy_store_def)
  have c3: "map createdAt (events (snd (put_events sample_oid sample_date 50 alice ''e7''
        ?b busy_store))) = map createdAt (events busy_store)"
    unfolding r using fr ids by (simp add: busy_store_def)
  show ?thesis using h1 h2 h3 h4 c1 c2 c3 by blast
qed

subsection \<open>Creating an event\<close>

text \<open>
  Claim C9. An authenticated POST /events whose title, description, eventType, location
  or eventDate is absent or falsy answers 400 and leaves the store unchanged: no event
  and no join record is inserted.
\<close>

theorem post_events_missing_field:
  assumes "falsy (b_title b) \<or> falsy (b_description b) \<or> falsy (b_eventType b)
     \<or> falsy (b_location b) \<or> falsy (b_eventDate b)"
  shows "post_events mkDate oid now u b st = ((400, Error ''Missing required fields''), st)"
  using assms by (simp add: post_events_def)

text \<open>A body with an empty title.\<close>

theorem post_events_missing_field_witness:
  "(falsy (b_title (party_body\<lparr>b_title := Some (JStr [])\<rparr>))
      \<or> falsy (b_description (party_body\<lparr>b_title := Some (JStr [])\<rparr>))
      \<or> falsy (b_eventType (party_body\<lparr>b_title := Some (JStr [])\<rparr>))
      \<or> falsy (b_location (party_body\<lparr>b_title := Some (JStr [])\<rparr>))
      \<or> falsy (b_eventDate (party_body\<lparr>b_title := Some (JStr [])\<rparr>)))
   \<and> post_events sample_date 8 30 bob (party_body\<lparr>b_title := Some (JStr [])\<rparr>) party_store
       = ((400, Error ''Missing required fields''), party_store)"
proof -
  have h: "falsy (b_title (party_body\<lparr>b_title := Some (JStr [])\<rparr>))
      \<or> falsy (b_description (party_body\<lparr>b_title := Some (JStr [])\<rparr>))
      \<or> falsy (b_eventType (party_body\<lparr>b_title := Some (JStr [])\<rparr>))
      \<or> falsy (b_location (party_body\<lparr>b_title := Some (JStr [])\<rparr>))
      \<or> falsy (b_eventDate (party_body\<lparr>b_title := Some (JStr [])\<rparr>))"
    by (simp add: falsy_def)
  show ?thesis
    using h post_events_missing_field [OF h, of sample_date 8 30 bob party_store] by blast
qed

subsection \<open>Saving a profile\<close>

text \<open>
  Claim C10, as the code has it. For a caller whose email is not an expression of
  query operators, POST /users answers 200 with the document built from the request and
  the identity alone, and that document takes the place of the first stored profile
  that the store finds for the caller's email, all of whose fields are overwritten, or
  is added when there is none; the other documents stay as they are. When the body has
  no preferences, the stored preferences are the default ones.
\<close>

theorem post_users_overwrites:
  assumes "\<not> is_operator_doc (email u)"
  shows "\<exists>d us'.
       post_users ops now u b st = ((200, UserBody (Some d)), st\<lparr>users := us'\<rparr>)
     \<and> d = \<lparr>u_email = email u,
            u_displayName = or_else (b_displayName b) (displayName u),
            u_photoURL = or_else (b_photoURL b) (photoURL u),
            u_preferences = or_else (b_preferences b) default_preferences,
            u_updatedAt = now\<rparr>
     \<and> (b_preferences b = None \<longrightarrow> u_preferences d = default_preferences)
     \<and> (if list_ex (\<lambda>x. value_is (email u) (u_email x)) (users st)
         then \<exists>i<length (users st).
                value_is (email u) (u_email (users st ! i))
              \<and> (\<forall>j<i. \<not> value_is (email u) (u_email (users st ! j)))
              \<and> us' = (users st)[i := d]
         else us' = users st @ [d])"
proof -
  let ?P = "\<lambda>x. value_is (email u) (u_email x)"
  let ?d = "\<lparr>u_email = email u,
            u_displayName = or_else (b_displayName b) (displayName u),
            u_photoURL = or_else (b_photoURL b) (photoURL u),
            u_preferences = or_else (b_preferences b) default_preferences,
            u_updatedAt = now\<rparr>"
  let ?us' = "upsert_user (value_is (email u)) ?d (users st)"
  note m = field_is_plain [OF assms, of ops]
  have pd: "?P ?d" by (simp add: value_is_same)
  have pref: "b_preferences b = None \<longrightarrow> u_preferences ?d = default_preferences"
    by (simp add: or_else_def)
  show ?thesis
  proof (cases "find ?P (users st)")
    case None
    then have no: "\<not> list_ex ?P (users st)" by (auto simp: find_None_iff list_ex_iff)
    from None have us: "?us' = users st @ [?d]" by (simp add: upsert_user_def)
    from None have f: "find ?P (users st @ [?d]) = Some ?d"
      using pd by (simp add: find_append)
    have "post_users ops now u b st = ((200, UserBody (Some ?d)), st\<lparr>users := users st @ [?d]\<rparr>)"
      by (simp add: post_users_def Let_def m us f)
    with no pref show ?thesis by (intro exI [of _ ?d] exI [of _ "users st @ [?d]"]) simp
  next
    case (Some x)
    then have yes: "list_ex ?P (users st)" by (rule find_Some_ex)
    from Some obtain i where i: "i < length (users st)" "?P (users st ! i)"
      "\<forall>j<i. \<not> ?P (users st ! j)"
      "update_first ?P (set_user ?d) (users st) = (users st)[i := set_user ?d x]"
      using update_first_index [of ?P "users st" x "set_user ?d"] by blast
    from Some i(4) have us: "?us' = (users st)[i := ?d]"
      by (simp add: upsert_user_def set_user_all)
    from Some have f: "find ?P ?us' = Some ?d"
      using find_update_first [of ?P "users st" x "set_user ?d"] pd
      by (simp add: upsert_user_def set_user_all)
    have "post_users ops now u b st = ((200, UserBody (Some ?d)), st\<lparr>users := ?us'\<rparr>)"
      by (simp add: post_users_def Let_def m f)
    then have r: "post_users ops now u b st
        = ((200, UserBody (Some ?d)), st\<lparr>users := (users st)[i := ?d]\<rparr>)"
      by (simp only: us)
    have "\<exists>k<length (users st). ?P (users st ! k) \<and> (\<forall>j<k. \<not> ?P (users st ! j))
        \<and> (users st)[i := ?d] = (users st)[k := ?d]"
      using i(1-3) by blast
    with r yes pref show ?thesis
      by (intro exI [of _ ?d] exI [of _ "(users st)[i := ?d]"]) simp
  qed
qed

text \<open>
  Alice had switched the notifications off; after a POST /users with an empty body her
  profile, the only one stored, has the default preferences.
\<close>

theorem post_users_overwrites_witness:
  "\<not> is_operator_doc (email alice)
   \<and> b_preferences empty_user_body = None
   \<and> users busy_store = [quiet_alice]
   \<and> u_preferences quiet_alice \<noteq> default_preferences
   \<and> post_users sample_ops 60 alice empty_user_body busy_store
      = ((200, UserBody (Some
            \<lparr>u_email = JStr ''alice@example.org'', u_displayName = JStr ''Alice'',
             u_photoURL = JNull, u_preferences = default_preferences, u_updatedAt = 60\<rparr>)),
         busy_store\<lparr>users :=
           [\<lparr>u_email = JStr ''alice@example.org'', u_displayName = JStr ''Alice'',
             u_photoURL = JNull, u_preferences = default_preferences, u_updatedAt = 60\<rparr>]\<rparr>)"
proof -
  let ?d = "\<lparr>u_email = JStr ''alice@example.org'', u_displayName = JStr ''Alice'',
             u_photoURL = JNull, u_preferences = default_preferences, u_updatedAt = 60\<rparr>"
  have h: "\<not> is_operator_doc (email alice)" by (simp add: is_operator_doc_def alice_def)
  have np: "b_preferences empty_user_body = None" by (simp add: empty_user_body_def)
  have us: "users busy_store = [quiet_alice]" by (simp add: busy_store_def)
  have differs: "u_preferences quiet_alice \<noteq> default_preferences"
    by (simp add: quiet_alice_def default_preferences_def)
  have stored: "list_ex (\<lambda>x. value_is (email alice) (u_email x)) (users busy_store)"
    by (simp add: us quiet_alice_def alice_def value_is_def)
  obtain d where "\<exists>us'.
       post_users sample_ops 60 alice empty_user_body busy_store
       = ((200, UserBody (Some d)), busy_store\<lparr>users := us'\<rparr>)
     \<and> d = \<lparr>u_email = email alice,
            u_displayName = or_else (b_displayName empty_user_body) (displayName alice),
            u_photoURL = or_else (b_photoURL empty_user_body) (photoURL alice),
            u_preferences = or_else (b_preferences empty_user_body) default_preferences,
            u_updatedAt = 60\<rparr>
     \<and> (b_preferences empty_user_body = None \<longrightarrow> u_preferences d = default_preferences)
     \<and> (if list_ex (\<lambda>x. value_is (email alice) (u_email x)) (users busy_store)
         then \<exists>i<length (users busy_store).
                value_is (email alice) (u_email (users busy_store ! i))
              \<and> (\<forall>j<i. \<not> value_is (email alice) (u_email (users busy_store ! j)))
              \<and> us' = (users busy_store)[i := d]
         else us' = users busy_store @ [d])"
    using post_users_overwrites [OF h, of sample_ops 60 empty_user_body busy_store] ..
  then obtain us' where all:
    "post_users sample_ops 60 alice empty_user_body busy_store
       = ((200, UserBody (Some d)), busy_store\<lparr>users := us'\<rparr>)
     \<and> d = \<lparr>u_email = email alice,
            u_displayName = or_else (b_displayName empty_user_body) (displayName alice),
            u_photoURL = or_else (b_photoURL empty_user_body) (photoURL alice),
            u_preferences = or_else (b_preferences empty_user_body) default_preferences,
            u_updatedAt = 60\<rparr>
     \<and> (b_preferences empty_user_body = None \<longrightarrow> u_preferences d = default_preferences)
     \<and> (if list_ex (\<lambda>x. value_is (email alice) (u_email x)) (users busy_store)
         then \<exists>i<length (users busy_store).
                value_is (email alice) (u_email (users busy_store ! i))
              \<and> (\<forall>j<i. \<not> value_is (email alice) (u_email (users busy_store ! j)))
              \<and> us' = (users busy_store)[i := d]
         else us' = users busy_store @ [d])" ..
  from all have d: "d = ?d"
    by (simp add: empty_user_body_def alice_def or_else_def)
  from all stored have "\<exists>i<length (users busy_store). us' = (users busy_store)[i := d]"
    by auto
  then have us': "us' = [?d]" by (auto simp: us d)
  from all have "post_users sample_ops 60 alice empty_user_body busy_store
       = ((200, UserBody (Some d)), busy_store\<lparr>users := us'\<rparr>)"
    by (rule conjunct1)
  then have r: "post_users sample_ops 60 alice empty_user_body busy_store
      = ((200, UserBody (Some ?d)), busy_store\<lparr>users := [?d]\<rparr>)"
    by (simp only: d us')
  show ?thesis using h np us differs r by blast
qed

text \<open>
  With the email \<open>{"$in": []}\<close> the filter of the update selects no document: a second
  POST /users of the same caller, without preferences, answers 200 and adds a second
  profile, and the first one stays stored with the preferences it had.
\<close>

theorem operator_email_profile_kept:
  "authenticate sample_decode (Some ''Bearer h.ghost.s'') = Inr ghost
   \<and> b_preferences empty_user_body = None
   \<and> post_users sample_ops 40 ghost loud_body empty_store
      = ((200, UserBody None),
         empty_store\<lparr>users :=
           [\<lparr>u_email = JObj [(''$in'', JArr [])], u_displayName = JStr ''Anonymous'',
             u_photoURL = JNull, u_preferences = JObj [(''notifications'', JBool False)],
             u_updatedAt = 40\<rparr>]\<rparr>)
   \<and> post_users sample_ops 60 ghost empty_user_body
        (empty_store\<lparr>users :=
           [\<lparr>u_email = JObj [(''$in'', JArr [])], u_displayName = JStr ''Anonymous'',
             u_photoURL = JNull, u_preferences = JObj [(''notifications'', JBool False)],
             u_updatedAt = 40\<rparr>]\<rparr>)
      = ((200, UserBody None),
         empty_store\<lparr>users :=
           [\<lparr>u_email = JObj [(''$in'', JArr [])], u_displayName = JStr ''Anonymous'',
             u_photoURL = JNull, u_preferences = JObj [(''notifications'', JBool False)],
             u_updatedAt = 40\<rparr>,
            \<lparr>u_email = JObj [(''$in'', JArr [])], u_displayName = JStr ''Anonymous'',
             u_photoURL = JNull, u_preferences = default_preferences,
             u_updatedAt = 60\<rparr>]\<rparr>)
   \<and> JObj [(''notifications'', JBool False)] \<noteq> default_preferences"
proof -
  have np: "b_preferences empty_user_body = None" by (simp add: empty_user_body_def)
  have p1: "post_users sample_ops 40 ghost loud_body empty_store
      = ((200, UserBody None),
         empty_store\<lparr>users :=
           [\<lparr>u_email = JObj [(''$in'', JArr [])], u_displayName = JStr ''Anonymous'',
             u_photoURL = JNull, u_preferences = JObj [(''notifications'', JBool False)],
             u_updatedAt = 40\<rparr>]\<rparr>)"
    by (simp add: post_users_def Let_def ghost_def ghost_filter upsert_user_def loud_body_def
        or_else_def empty_store_def)
  have p2: "post_users sample_ops 60 ghost empty_user_body
        (empty_store\<lparr>users :=
           [\<lparr>u_email = JObj [(''$in'', JArr [])], u_displayName = JStr ''Anonymous'',
             u_photoURL = JNull, u_preferences = JObj [(''notifications'', JBool False)],
             u_updatedAt = 40\<rparr>]\<rparr>)
      = ((200, UserBody None),
         empty_store\<lparr>users :=
           [\<lparr>u_email = JObj [(''$in'', JArr [])], u_displayName = JStr ''Anonymous'',
             u_photoURL = JNull, u_preferences = JObj [(''notifications'', JBool False)],
             u_updatedAt = 40\<rparr>,
            \<lparr>u_email = JObj [(''$in'', JArr [])], u_displayName = JStr ''Anonymous'',
             u_photoURL = JNull, u_preferences = default_preferences,
             u_updatedAt = 60\<rparr>]\<rparr>)"
    by (simp add: post_users_def Let_def ghost_def ghost_filter upsert_user_def
        empty_user_body_def or_else_def empty_store_def)
  have ne: "JObj [(''notifications'', JBool False)] \<noteq> default_preferences"
    by (simp add: default_preferences_def)
  show ?thesis using ghost_auth np p1 p2 ne by blast
qed

subsection \<open>Listing events\<close>

lemma v_event_enrich: "v_event (enrich st e) = e"
  by (simp add: enrich_def Let_def)

lemma map_v_event_enrich: "map v_event (map (enrich st) es) = es"
  by (simp add: v_event_enrich comp_def)

lemma sorted_cursor_limit:
  "sorted (map f xs) \<Longrightarrow> sorted (map f (cursor_limit n xs))"
  by (simp add: cursor_limit_def take_map [symmetric])

lemma set_cursor_limit: "set (cursor_limit n xs) \<subseteq> set xs"
  by (simp add: cursor_limit_def set_take_subset)

lemma get_events_shape:
  "\<exists>P. (\<forall>e. P e \<longrightarrow> now \<le> eventDate e)
     \<and> views_of (get_events ops parseInt rx now q st)
       = map (enrich st) (cursor_limit (limit_of parseInt (q_limit q))
           (sort_key eventDate (filter P (events st))))"
proof (cases "type_filter ops (q_type q)")
  case None
  then have "views_of (get_events ops parseInt rx now q st) = []"
    by (simp add: get_events_def views_of_def)
  then have "(\<forall>e. False \<longrightarrow> now \<le> eventDate e)
     \<and> views_of (get_events ops parseInt rx now q st)
       = map (enrich st) (cursor_limit (limit_of parseInt (q_limit q))
           (sort_key eventDate (filter (\<lambda>e. False) (events st))))"
    by (simp add: cursor_limit_def)
  then show ?thesis by (rule exI [of _ "\<lambda>e. False"])
next
  case tm: (Some tm)
  show ?thesis
  proof (cases "search_filter rx (q_search q)")
    case None
    with tm have "views_of (get_events ops parseInt rx now q st) = []"
      by (simp add: get_events_def views_of_def)
    then have "(\<forall>e. False \<longrightarrow> now \<le> eventDate e)
       \<and> views_of (get_events ops parseInt rx now q st)
         = map (enrich st) (cursor_limit (limit_of parseInt (q_limit q))
             (sort_key eventDate (filter (\<lambda>e. False) (events st))))"
      by (simp add: cursor_limit_def)
    then show ?thesis by (rule exI [of _ "\<lambda>e. False"])
  next
    case (Some sm)
    with tm have "views_of (get_events ops parseInt rx now q st)
         = map (enrich st) (cursor_limit (limit_of parseInt (q_limit q))
             (sort_key eventDate
                (filter (\<lambda>e. now \<le> eventDate e \<and> tm e \<and> sm e) (events st))))"
      by (simp add: get_events_def views_of_def)
    then have "(\<forall>e. (now \<le> eventDate e \<and> tm e \<and> sm e) \<longrightarrow> now \<le> eventDate e)
       \<and> views_of (get_events ops parseInt rx now q st)
         = map (enrich st) (cursor_limit (limit_of parseInt (q_limit q))
             (sort_key eventDate
                (filter (\<lambda>e. now \<le> eventDate e \<and> tm e \<and> sm e) (events st))))"
      by simp
    then show ?thesis by (rule exI [of _ "\<lambda>e. now \<le> eventDate e \<and> tm e \<and> sm e"])
  qed
qed

text \<open>
  Claim C6. Whatever the request, the events GET /events returns are stored events in
  ascending order of eventDate, none of them is before the time of the request, and so a
  stored event whose eventDate is strictly before that time is not among them.
\<close>

theorem get_events_upcoming_sorted:
  "sorted (map (\<lambda>v. eventDate (v_event v)) (views_of (get_events ops parseInt rx now q st)))
   \<and> list_all (\<lambda>v. now \<le> eventDate (v_event v)) (views_of (get_events ops parseInt rx now q st))
   \<and> set (map v_event (views_of (get_events ops parseInt rx now q st))) \<subseteq> set (events st)
   \<and> (e \<in> set (events st) \<and> eventDate e < now \<longrightarrow>
        e \<notin> set (map v_event (views_of (get_events ops parseInt rx now q st))))"
proof -
  obtain P where both: "(\<forall>e. P e \<longrightarrow> now \<le> eventDate e)
     \<and> views_of (get_events ops parseInt rx now q st)
       = map (enrich st) (cursor_limit (limit_of parseInt (q_limit q))
           (sort_key eventDate (filter P (events st))))"
    using get_events_shape [of now ops parseInt rx q st] ..
  note P = both [THEN conjunct1] and vs = both [THEN conjunct2]
  let ?found = "cursor_limit (limit_of parseInt (q_limit q))
           (sort_key eventDate (filter P (events st)))"
  have sub: "set ?found \<subseteq> set (filter P (events st))"
    using set_cursor_limit [of _ "sort_key eventDate (filter P (events st))"] by simp
  then have up: "\<forall>x\<in>set ?found. now \<le> eventDate x" using P by auto
  then have a: "eventDate e < now \<longrightarrow> e \<notin> set ?found" by auto
  have b: "sorted (map eventDate ?found)"
    by (rule sorted_cursor_limit) simp
  have c: "map (\<lambda>v. eventDate (v_event v)) (map (enrich st) ?found) = map eventDate ?found"
    by (simp add: v_event_enrich comp_def)
  have d: "list_all (\<lambda>v. now \<le> eventDate (v_event v)) (map (enrich st) ?found)"
    using up by (simp add: list_all_iff v_event_enrich)
  have e: "set ?found \<subseteq> set (events st)" using sub by auto
  have s1: "sorted (map (\<lambda>v. eventDate (v_event v))
      (views_of (get_events ops parseInt rx now q st)))"
    unfolding vs c by (rule b)
  have s2: "list_all (\<lambda>v. now \<le> eventDate (v_event v))
      (views_of (get_events ops parseInt rx now q st))"
    unfolding vs by (rule d)
  have s3: "set (map v_event (views_of (get_events ops parseInt rx now q st)))
      \<subseteq> set (events st)"
    unfolding vs map_v_event_enrich by (rule e)
  have s4: "e \<in> set (events st) \<and> eventDate e < now \<longrightarrow>
        e \<notin> set (map v_event (views_of (get_events ops parseInt rx now q st)))"
    unfolding vs map_v_event_enrich using a by simp
  from s1 s2 s3 s4 show ?thesis by (intro conjI)
qed

text \<open>At time 150 the party of time 100 is left out, and the two later events are sorted.\<close>

theorem get_events_upcoming_sorted_witness:
  "party \<in> set (events busy_store) \<and> eventDate party < 150
   \<and> party \<notin> set (map v_event
        (views_of (get_events sample_ops sample_parseInt no_other_patterns 150 no_query busy_store)))
   \<and> sorted (map (\<lambda>v. eventDate (v_event v))
        (views_of (get_events sample_ops sample_parseInt no_other_patterns 150 no_query busy_store)))
   \<and> map v_event (views_of (get_events sample_ops sample_parseInt no_other_patterns 150 no_query busy_store))
       = [hike, picnic]"
proof -
  have h1: "party \<in> set (events busy_store)" by (simp add: busy_store_def)
  have h2: "eventDate party < 150" by (simp add: party_def)
  have d: "eventDate picnic = 300" "eventDate hike = 200" "eventDate party = 100"
    by (simp_all add: picnic_def hike_def party_def)
  have "get_events sample_ops sample_parseInt no_other_patterns 150 no_query busy_store
      = (200, ViewsBody (map (enrich busy_store) [hike, picnic]))"
    by (simp add: get_events_def no_query_def limit_of_def cursor_limit_def type_filter_def
        search_filter_def busy_store_def d)
  then have v: "map v_event
      (views_of (get_events sample_ops sample_parseInt no_other_patterns 150 no_query busy_store))
       = [hike, picnic]"
    by (simp add: views_of_def v_event_enrich)
  show ?thesis
    using h1 h2 v
      get_events_upcoming_sorted [of sample_ops sample_parseInt no_other_patterns 150
        no_query busy_store party]
    by blast
qed

lemma enrich_participants:
  "participants (enrich st e) = map project (filter (\<lambda>j. j_eventId j = eid e) (joins st))
   \<and> participantsCount (enrich st e) = Some (length (participants (enrich st e)))"
  by (simp add: enrich_def Let_def)

text \<open>
  Claim C1, as the code has it. In every event returned by GET /events and by
  GET /manage/events, \<open>participants\<close> is the projection to userEmail, userName and
  userPhotoURL of exactly the join records whose eventId is the event's identifier, and
  \<open>participantsCount\<close> is its length. The event returned by GET /events/:id has these
  join records too, projected with \<open>joinedAt\<close> as well, and no \<open>participantsCount\<close>.
\<close>

theorem participants_of_views:
  "(v \<in> set (views_of (get_events ops parseInt rx now q st))
        \<union> set (views_of (manage_events ops u st))
      \<longrightarrow> participants v
            = map project (filter (\<lambda>j. j_eventId j = eid (v_event v)) (joins st))
          \<and> participantsCount v = Some (length (participants v)))
   \<and> (get_event mkOid idp st = (200, ViewBody w)
      \<longrightarrow> participants w
            = map project_joinedAt (filter (\<lambda>j. j_eventId j = eid (v_event w)) (joins st))
          \<and> participantsCount w = None)"
proof (intro conjI impI)
  assume v: "v \<in> set (views_of (get_events ops parseInt rx now q st))
        \<union> set (views_of (manage_events ops u st))"
  obtain P where both: "(\<forall>e. P e \<longrightarrow> now \<le> eventDate e)
     \<and> views_of (get_events ops parseInt rx now q st)
       = map (enrich st) (cursor_limit (limit_of parseInt (q_limit q))
           (sort_key eventDate (filter P (events st))))"
    using get_events_shape [of now ops parseInt rx q st] ..
  note listed = both [THEN conjunct2]
  have "\<exists>es. views_of (manage_events ops u st) = map (enrich st) es"
  proof (cases "field_is ops (email u)")
    case None
    then have "views_of (manage_events ops u st) = map (enrich st) []"
      by (simp add: manage_events_def views_of_def)
    then show ?thesis ..
  next
    case (Some m)
    then have "views_of (manage_events ops u st) = map (enrich st)
        (sort_key eventDate (filter (\<lambda>e. m (userEmail e)) (events st)))"
      by (simp add: manage_events_def views_of_def)
    then show ?thesis ..
  qed
  then obtain es where managed: "views_of (manage_events ops u st) = map (enrich st) es" ..
  from v obtain e where v: "v = enrich st e"
    unfolding listed managed by auto
  show "participants v = map project (filter (\<lambda>j. j_eventId j = eid (v_event v)) (joins st))"
    by (simp add: v enrich_participants v_event_enrich)
  show "participantsCount v = Some (length (participants v))"
    by (simp add: v enrich_participants)
next
  assume r: "get_event mkOid idp st = (200, ViewBody w)"
  then obtain i event where i: "mkOid idp = Some i"
    and f: "find (\<lambda>e. eid e = i) (events st) = Some event"
    by (auto simp: get_event_def split: option.splits)
  from f have "eid event = i" using find_eid by blast
  with r i f have w: "w = \<lparr>v_event = event,
       participants = map project_joinedAt (filter (\<lambda>j. j_eventId j = eid event) (joins st)),
       participantsCount = None\<rparr>"
    by (simp add: get_event_def)
  show "participants w
      = map project_joinedAt (filter (\<lambda>j. j_eventId j = eid (v_event w)) (joins st))"
    by (simp add: w)
  show "participantsCount w = None" by (simp add: w)
qed

text \<open>The party in the list, in its owner's list and on its own.\<close>

theorem participants_of_views_witness:
  "enrich party_store party
     \<in> set (views_of (get_events sample_ops sample_parseInt no_other_patterns 50 no_query party_store))
       \<union> set (views_of (manage_events sample_ops alice party_store))
   \<and> participants (enrich party_store party) = [project alice_joined]
   \<and> participantsCount (enrich party_store party) = Some 1
   \<and> get_event sample_oid ''e7'' party_store =
     (200, ViewBody \<lparr>v_event = party, participants = [project_joinedAt alice_joined],
                     participantsCount = None\<rparr>)
   \<and> participants \<lparr>v_event = party, participants = [project_joinedAt alice_joined],
                     participantsCount = None\<rparr>
      = map project_joinedAt (filter (\<lambda>j. j_eventId j = eid party) (joins party_store))"
proof -
  let ?q = "get_events sample_ops sample_parseInt no_other_patterns 50 no_query party_store"
  let ?w = "\<lparr>v_event = party, participants = [project_joinedAt alice_joined],
                     participantsCount = None\<rparr>"
  have d: "eventDate party = 100" by (simp add: party_def)
  have "?q = (200, ViewsBody [enrich party_store party])"
    by (simp add: get_events_def no_query_def limit_of_def cursor_limit_def type_filter_def
        search_filter_def party_store_def d)
  then have h1: "enrich party_store party
     \<in> set (views_of ?q) \<union> set (views_of (manage_events sample_ops alice party_store))"
    by (simp add: views_of_def)
  note h2 = detail_of_party
  note t = participants_of_views [where v = "enrich party_store party" and w = ?w
      and parseInt = sample_parseInt and rx = no_other_patterns and now = 50 and q = no_query
      and st = party_store and ops = sample_ops and u = alice and mkOid = sample_oid
      and idp = "''e7''"]
  have js: "filter (\<lambda>j. j_eventId j = eid party) (joins party_store) = [alice_joined]"
    by (simp add: party_store_def party_def alice_joined_def)
  from t h1 have a: "participants (enrich party_store party)
      = map project (filter (\<lambda>j. j_eventId j = eid (v_event (enrich party_store party)))
          (joins party_store))"
    and b: "participantsCount (enrich party_store party)
      = Some (length (participants (enrich party_store party)))"
    by blast+
  from a have c1: "participants (enrich party_store party) = [project alice_joined]"
    by (simp add: v_event_enrich js)
  from b c1 have c2: "participantsCount (enrich party_store party) = Some 1" by simp
  from t h2 have "participants ?w
      = map project_joinedAt (filter (\<lambda>j. j_eventId j = eid (v_event ?w)) (joins party_store))"
    by blast
  then have c3: "participants ?w
      = map project_joinedAt (filter (\<lambda>j. j_eventId j = eid party) (joins party_store))"
    by simp
  show ?thesis using h1 c1 c2 h2 c3 by blast
qed

text \<open>
  GET /events/:id of the party: one participant, and no \<open>participantsCount\<close> to be
  equal to 1.
\<close>

theorem detail_has_no_count:
  "get_event sample_oid ''e7'' party_store =
     (200, ViewBody \<lparr>v_event = party, participants = [project_joinedAt alice_joined],
                     participantsCount = None\<rparr>)
   \<and> participantsCount \<lparr>v_event = party, participants = [project_joinedAt alice_joined],
                     participantsCount = None\<rparr>
     \<noteq> Some (length (participants \<lparr>v_event = party,
          participants = [project_joinedAt alice_joined], participantsCount = None\<rparr>))"
  using detail_of_party by simp

subsection \<open>Searching by title\<close>







subsection \<open>Authentication\<close>

text \<open>
  Claim C8, as the code has it. For a bearer credential whose payload decodes: when the
  payload has a truthy email, the request goes on with an identity whose email is the
  payload's, whose displayName is the payload's name, or "Anonymous" when the name is
  absent or falsy, and whose photoURL is the payload's picture, or null when that is
  absent or falsy; when the email is absent or falsy, the answer is 401.
\<close>

theorem authenticate_identity:
  assumes "startsWith h ''Bearer ''" and "bearer_token h = Some token" and "token \<noteq> []"
    and "token_payload token = Some p" and "decode p = Some pl"
  shows "(jfield ''email'' pl = Some e \<and> truthy e \<longrightarrow>
            (\<exists>u. authenticate decode (Some h) = Inr u \<and> email u = e
               \<and> displayName u = or_else (jfield ''name'' pl) (JStr ''Anonymous'')
               \<and> photoURL u = or_else (jfield ''picture'' pl) JNull
               \<and> (jfield ''name'' pl = None \<longrightarrow> displayName u = JStr ''Anonymous'')
               \<and> (jfield ''picture'' pl = None \<longrightarrow> photoURL u = JNull)))
       \<and> (falsy (jfield ''email'' pl) \<longrightarrow>
            authenticate decode (Some h) = Inl (401, Error ''Invalid token format''))"
  using assms
  by (simp add: authenticate_def identity_of_def falsy_def or_else_def)

text \<open>Bob's token, which has an email only; and a payload with a name only.\<close>

theorem authenticate_identity_witness:
  "startsWith ''Bearer h.bob.s'' ''Bearer '' \<and> bearer_token ''Bearer h.bob.s'' = Some ''h.bob.s''
   \<and> ''h.bob.s'' \<noteq> [] \<and> token_payload ''h.bob.s'' = Some ''bob''
   \<and> sample_decode ''bob'' = Some (JObj [(''email'', JStr ''bob@example.org'')])
   \<and> jfield ''email'' (JObj [(''email'', JStr ''bob@example.org'')]) = Some (JStr ''bob@example.org'')
   \<and> truthy (JStr ''bob@example.org'')
   \<and> jfield ''name'' (JObj [(''email'', JStr ''bob@example.org'')]) = None
   \<and> jfield ''picture'' (JObj [(''email'', JStr ''bob@example.org'')]) = None
   \<and> authenticate sample_decode (Some ''Bearer h.bob.s'')
       = Inr \<lparr>email = JStr ''bob@example.org'', displayName = JStr ''Anonymous'', photoURL = JNull\<rparr>
   \<and> falsy (jfield ''email'' (JObj [(''name'', JStr ''Carol'')]))
   \<and> authenticate (\<lambda>p. Some (JObj [(''name'', JStr ''Carol'')])) (Some ''Bearer h.bob.s'')
       = Inl (401, Error ''Invalid token format'')"
proof -
  have h1: "startsWith ''Bearer h.bob.s'' ''Bearer ''" by (simp add: startsWith_def)
  have h2: "bearer_token ''Bearer h.bob.s'' = Some ''h.bob.s''"
    by (simp add: bearer_token_def at_index_def)
  have h3: "''h.bob.s'' \<noteq> []" by simp
  have h4: "token_payload ''h.bob.s'' = Some ''bob''"
    by (simp add: token_payload_def at_index_def)
  have h5: "sample_decode ''bob'' = Some (JObj [(''email'', JStr ''bob@example.org'')])"
    by (simp add: sample_decode_def)
  have h5': "(\<lambda>p. Some (JObj [(''name'', JStr ''Carol'')])) ''bob''
      = Some (JObj [(''name'', JStr ''Carol'')])" by simp
  have e1: "jfield ''email'' (JObj [(''email'', JStr ''bob@example.org'')])
      = Some (JStr ''bob@example.org'')" by simp
  have e2: "truthy (JStr ''bob@example.org'')" by simp
  have e3: "jfield ''name'' (JObj [(''email'', JStr ''bob@example.org'')]) = None" by simp
  have e4: "jfield ''picture'' (JObj [(''email'', JStr ''bob@example.org'')]) = None" by simp
  have e5: "falsy (jfield ''email'' (JObj [(''name'', JStr ''Carol'')]))"
    by (simp add: falsy_def)
  from authenticate_identity [where decode = sample_decode and e = "JStr ''bob@example.org''",
      OF h1 h2 h3 h4 h5] e1 e2 e3 e4
  obtain u where "authenticate sample_decode (Some ''Bearer h.bob.s'') = Inr u"
    and "email u = JStr ''bob@example.org''" and "displayName u = JStr ''Anonymous''"
    and "photoURL u = JNull"
    by blast
  then have a: "authenticate sample_decode (Some ''Bearer h.bob.s'')
       = Inr \<lparr>email = JStr ''bob@example.org'', displayName = JStr ''Anonymous'', photoURL = JNull\<rparr>"
    by (cases u) simp
  from authenticate_identity [where decode = "\<lambda>p. Some (JObj [(''name'', JStr ''Carol'')])",
      OF h1 h2 h3 h4 h5'] e5
  have b: "authenticate (\<lambda>p. Some (JObj [(''name'', JStr ''Carol'')])) (Some ''Bearer h.bob.s'')
       = Inl (401, Error ''Invalid token format'')"
    by blast
  show ?thesis using h1 h2 h3 h4 h5 e1 e2 e3 e4 e5 a b by blast
qed

text \<open>A payload that has an email field, the empty string, is rejected.\<close>

theorem empty_email_is_rejected:
  "sample_decode ''blank'' = Some (JObj [(''email'', JStr []), (''name'', JStr ''Nobody'')])
   \<and> jfield ''email'' (JObj [(''email'', JStr []), (''name'', JStr ''Nobody'')]) = Some (JStr [])
   \<and> authenticate sample_decode (Some ''Bearer h.blank.s'')
       = Inl (401, Error ''Invalid token format'')"
  by (simp add: authenticate_def startsWith_def bearer_token_def token_payload_def at_index_def
      sample_decode_def identity_of_def falsy_def)

end
